theory Spec2Isabelle
  imports Complex_Main "HOL-Library.AList"
begin

section \<open>Python values shared by the modules\<close>

text \<open>
  Exceptions of the Python sources are values: a function that can raise returns
  \<open>py_error + 'a\<close>, with \<open>Inl\<close> for the exception.
\<close>

datatype py_error =
  NameError | ValueError | KeyError | AttributeError | BinasciiError | UnicodeDecodeError
  | HttpError | IntegrityError | ModelError

text \<open>
  A dictionary entry of a result mapping: the key is missing, or it is bound to
  \<open>None\<close>, or it is bound to a value.  Amounts are Python floats; the model keeps the
  exact decimal value as a rational number.
\<close>

datatype 'a field = Missing | PyNone | Val 'a

text \<open>A calendar date: year, month, day.\<close>

type_synonym date = "nat \<times> nat \<times> nat"

record candidate =
  amount :: "rat field"
  merchant :: "string field"
  date :: "date field"
  description :: "string field"

definition empty_dict :: candidate where
  "empty_dict = \<lparr>amount = Missing, merchant = Missing, date = Missing, description = Missing\<rparr>"

definition has_key :: "'a field \<Rightarrow> bool" where
  "has_key f = (f \<noteq> Missing)"

section \<open>websocket-manager.py: ConnectionManager\<close>

text \<open>
  \<open>active_connections\<close> is a dict from user id to a list of sockets.  It is an
  association list in insertion order; \<open>AList.update\<close> rebinds a key in place or adds
  it at the end, \<open>AList.delete\<close> removes it, \<open>map_of\<close> reads it.
  Sockets are compared by identity, here by equality on \<open>'ws\<close>.
\<close>

type_synonym 'ws registry = "(int \<times> 'ws list) list"

definition init_registry :: "'ws registry" where
  "init_registry = []"

text \<open>
  \<open>connect\<close>: \<open>await websocket.accept()\<close> comes first; when it raises
  (\<open>accept_ok = False\<close>) nothing has been written.  A missing key is bound to \<open>[]\<close>,
  then the socket is appended to the user's list.
\<close>

definition connect :: "bool \<Rightarrow> 'ws \<Rightarrow> int \<Rightarrow> 'ws registry \<Rightarrow> 'ws registry" where
  "connect accept_ok websocket user_id active_connections =
     (if \<not> accept_ok then active_connections
      else
        let ac = (if user_id \<notin> fst ` set active_connections
                  then AList.update user_id [] active_connections
                  else active_connections)
        in (case map_of ac user_id of
              None \<Rightarrow> ac
            | Some conns \<Rightarrow> AList.update user_id (conns @ [websocket]) ac))"

text \<open>
  \<open>disconnect\<close>: \<open>list.remove\<close> takes out the first occurrence, in place; the key is
  deleted when its list has become empty.
\<close>

definition disconnect :: "'ws \<Rightarrow> int \<Rightarrow> 'ws registry \<Rightarrow> 'ws registry" where
  "disconnect websocket user_id active_connections =
     (case map_of active_connections user_id of
        None \<Rightarrow> active_connections
      | Some conns \<Rightarrow>
          let ac = (if websocket \<in> set conns
                    then AList.update user_id (remove1 websocket conns) active_connections
                    else active_connections)
          in (case map_of ac user_id of
                Some [] \<Rightarrow> AList.delete user_id ac
              | _ \<Rightarrow> ac))"

datatype 'ws manager_op = Connect bool 'ws int | Disconnect 'ws int

fun apply_manager_op :: "'ws manager_op \<Rightarrow> 'ws registry \<Rightarrow> 'ws registry" where
  "apply_manager_op (Connect ok w u) ac = connect ok w u ac"
| "apply_manager_op (Disconnect w u) ac = disconnect w u ac"

fun run_manager :: "'ws manager_op list \<Rightarrow> 'ws registry \<Rightarrow> 'ws registry" where
  "run_manager [] ac = ac"
| "run_manager (x # xs) ac = run_manager xs (apply_manager_op x ac)"

text \<open>The invariant: no key of the registry is bound to the empty list.\<close>

definition no_empty_list :: "'ws registry \<Rightarrow> bool" where
  "no_empty_list ac = list_all (\<lambda>kv. snd kv \<noteq> []) ac"

section \<open>advanced-ai-backend.py: MLEmailParser.validate_extraction\<close>

text \<open>
  \<open>not x\<close> on a dictionary value: \<open>None\<close>, the float zero and the empty string are
  false.  \<open>result\<close> itself is \<open>None\<close> or a dictionary; \<open>not result\<close> holds for \<open>None\<close>
  and for the dictionary without keys.
\<close>

definition falsy_num :: "rat field \<Rightarrow> bool" where
  "falsy_num f = (case f of Val a \<Rightarrow> a = 0 | _ \<Rightarrow> True)"

definition falsy_str :: "string field \<Rightarrow> bool" where
  "falsy_str f = (case f of Val s \<Rightarrow> s = [] | _ \<Rightarrow> True)"

definition num_of :: "rat field \<Rightarrow> rat" where
  "num_of f = (case f of Val a \<Rightarrow> a | _ \<Rightarrow> 0)"

definition len_of :: "string field \<Rightarrow> nat" where
  "len_of f = (case f of Val s \<Rightarrow> length s | _ \<Rightarrow> 0)"

definition validate_extraction :: "candidate option \<Rightarrow> bool" where
  "validate_extraction result =
     (case result of
        None \<Rightarrow> False
      | Some r \<Rightarrow>
          if r = empty_dict then False
          else if \<not> has_key (amount r) \<or> \<not> has_key (merchant r) then False
          else if falsy_num (amount r) \<or> num_of (amount r) \<le> 0 \<or> num_of (amount r) > 50000
            then False
          else if falsy_str (merchant r) \<or> len_of (merchant r) < 2 then False
          else True)"

section \<open>Python strings\<close>

text \<open>
  A Python \<open>str\<close> is a HOL string.  The character predicates are those of Python on
  ASCII text: \<open>str.isspace\<close> (tab to carriage return, the four separators 28 to 31
  and the blank), the decimal digits, the letters.  Characters above 127 are in none of
  these classes in the model, and \<open>lower\<close> leaves them as they are.
\<close>

definition ord :: "char \<Rightarrow> nat" where
  "ord c = of_char c"

definition is_digit :: "char \<Rightarrow> bool" where
  "is_digit c = (c \<in> set ''0123456789'')"

definition upper_letters :: string where
  "upper_letters = ''ABCDEFGHIJKLMNOPQRSTUVWXYZ''"

definition lower_letters :: string where
  "lower_letters = ''abcdefghijklmnopqrstuvwxyz''"

definition is_upper :: "char \<Rightarrow> bool" where
  "is_upper c = (c \<in> set upper_letters)"

definition is_lower :: "char \<Rightarrow> bool" where
  "is_lower c = (c \<in> set lower_letters)"

definition is_space :: "char \<Rightarrow> bool" where
  "is_space c =
     (c \<in> set [CHR 0x09, CHR 0x0A, CHR 0x0B, CHR 0x0C, CHR 0x0D,
                CHR 0x1C, CHR 0x1D, CHR 0x1E, CHR 0x1F, CHR 0x20])"

definition is_word :: "char \<Rightarrow> bool" where
  "is_word c = (is_digit c \<or> is_upper c \<or> is_lower c \<or> c = CHR ''_'')"

text \<open>\<open>translate from to c\<close>: the character of \<open>to\<close> at the place of \<open>c\<close> in \<open>from\<close>.\<close>

fun translate :: "string \<Rightarrow> string \<Rightarrow> char \<Rightarrow> char" where
  "translate (a # as) (b # bs) c = (if c = a then b else translate as bs c)"
| "translate _ _ c = c"

definition lower_char :: "char \<Rightarrow> char" where
  "lower_char c = translate upper_letters lower_letters c"

definition upper_char :: "char \<Rightarrow> char" where
  "upper_char c = translate lower_letters upper_letters c"

definition py_lower :: "string \<Rightarrow> string" where
  "py_lower s = map lower_char s"

fun startswith :: "string \<Rightarrow> string \<Rightarrow> bool" where
  "startswith s [] = True"
| "startswith [] (p # ps) = False"
| "startswith (c # cs) (p # ps) = (c = p \<and> startswith cs ps)"

definition endswith :: "string \<Rightarrow> string \<Rightarrow> bool" where
  "endswith s suffix = startswith (rev s) (rev suffix)"

text \<open>\<open>sub in s\<close> for strings.\<close>

fun py_contains :: "string \<Rightarrow> string \<Rightarrow> bool" where
  "py_contains sub [] = (sub = [])"
| "py_contains sub (c # cs) = (startswith (c # cs) sub \<or> py_contains sub cs)"

text \<open>\<open>s.split()\<close>: the maximal runs of non-blank characters.\<close>

fun split_ws :: "string \<Rightarrow> string \<Rightarrow> string list" where
  "split_ws w [] = (if w = [] then [] else [w])"
| "split_ws w (c # cs) =
     (if is_space c then (if w = [] then split_ws [] cs else w # split_ws [] cs)
      else split_ws (w @ [c]) cs)"

definition py_split :: "string \<Rightarrow> string list" where
  "py_split s = split_ws [] s"

fun py_join :: "string \<Rightarrow> string list \<Rightarrow> string" where
  "py_join sep [] = []"
| "py_join sep [w] = w"
| "py_join sep (w # ws) = w @ sep @ py_join sep ws"

definition py_strip :: "string \<Rightarrow> string" where
  "py_strip s = rev (dropWhile is_space (rev (dropWhile is_space s)))"

text \<open>
  \<open>float(s)\<close> on a decimal literal: digits, optionally a point and more digits, with
  at least one digit.  The value is kept exact.  Every string the extractors convert is
  such a literal (digit groups of a regex match with the commas removed); the other
  literals Python reads (sign, exponent, \<open>inf\<close>, \<open>nan\<close>, underscores, blanks around)
  are not modelled and count as \<open>ValueError\<close>, which is \<open>None\<close> here.
\<close>

definition digits_val :: "string \<Rightarrow> nat" where
  "digits_val s = foldl (\<lambda>n c. 10 * n + (ord c - 48)) 0 s"

definition py_float :: "string \<Rightarrow> rat option" where
  "py_float s =
     (let ip = takeWhile (\<lambda>c. c \<noteq> CHR ''.'') s;
          rest = dropWhile (\<lambda>c. c \<noteq> CHR ''.'') s;
          fp = tl rest
      in if list_all is_digit ip \<and> list_all is_digit fp \<and> (ip \<noteq> [] \<or> fp \<noteq> [])
         then Some (of_nat (digits_val ip) + of_nat (digits_val fp) / 10 ^ length fp)
         else None)"

definition remove_commas :: "string \<Rightarrow> string" where
  "remove_commas s = filter (\<lambda>c. c \<noteq> CHR '','') s"

section \<open>Regular expressions of the \<open>re\<close> module\<close>

text \<open>
  The patterns of the sources use literals, character classes, alternation, the greedy
  quantifiers \<open>?\<close>, \<open>*\<close>, \<open>+\<close>, \<open>{0,n}\<close>, \<open>{n}\<close>, the lazy \<open>+?\<close>, the anchor
  \<open>$\<close> and one capturing group.  The matcher is the backtracking matcher of \<open>re\<close>: it
  returns the remainders of the input after every way of matching, in the order in which
  backtracking tries them, so the head of the list is the match \<open>re\<close> reports.
\<close>

datatype cset = Chr char | Range char char | Digit | Word | Space | Dot | Union "cset list"

fun in_cset :: "cset \<Rightarrow> char \<Rightarrow> bool" where
  "in_cset (Chr a) c = (c = a)"
| "in_cset (Range a b) c = (ord a \<le> ord c \<and> ord c \<le> ord b)"
| "in_cset Digit c = is_digit c"
| "in_cset Word c = is_word c"
| "in_cset Space c = is_space c"
| "in_cset Dot c = (c \<noteq> CHR 0x0A)"
| "in_cset (Union cs) c = list_ex (\<lambda>s. in_cset s c) cs"

text \<open>With \<open>re.IGNORECASE\<close> a character matches when either of its cases does.\<close>

definition cmatch :: "bool \<Rightarrow> cset \<Rightarrow> char \<Rightarrow> bool" where
  "cmatch ic s c =
     (if in_cset s c then True
      else if ic then (if in_cset s (lower_char c) then True else in_cset s (upper_char c))
      else False)"

datatype regex =
    Atom cset
  | Lit string
  | Seq regex regex
  | Alt regex regex
  | Opt regex
  | Star regex
  | LazyStar regex
  | Eol

fun lit_match :: "bool \<Rightarrow> string \<Rightarrow> string \<Rightarrow> string list" where
  "lit_match ic [] s = [s]"
| "lit_match ic (a # as) [] = []"
| "lit_match ic (a # as) (c # cs) = (if cmatch ic (Chr a) c then lit_match ic as cs else [])"

fun rmatch :: "bool \<Rightarrow> regex \<Rightarrow> string \<Rightarrow> string list" where
  "rmatch ic (Atom cs) s =
     (case s of [] \<Rightarrow> [] | c # s' \<Rightarrow> if cmatch ic cs c then [s'] else [])"
| "rmatch ic (Lit l) s = lit_match ic l s"
| "rmatch ic (Seq r1 r2) s = concat (map (rmatch ic r2) (rmatch ic r1 s))"
| "rmatch ic (Alt r1 r2) s = rmatch ic r1 s @ rmatch ic r2 s"
| "rmatch ic (Opt r) s = rmatch ic r s @ [s]"
| "rmatch ic (Star r) s =
     concat (map (\<lambda>s'. if length s' < length s then rmatch ic (Star r) s' else [])
                 (rmatch ic r s)) @ [s]"
| "rmatch ic (LazyStar r) s =
     s # concat (map (\<lambda>s'. if length s' < length s then rmatch ic (LazyStar r) s' else [])
                     (rmatch ic r s))"
| "rmatch ic Eol s = (if s = [] \<or> s = [CHR 0x0A] then [s] else [])"

definition Plus :: "regex \<Rightarrow> regex" where
  "Plus r = Seq r (Star r)"

definition LazyPlus :: "regex \<Rightarrow> regex" where
  "LazyPlus r = Seq r (LazyStar r)"

text \<open>\<open>r{n}\<close> is \<open>n\<close> copies of \<open>r\<close>; the greedy \<open>r{0,n}\<close> tries one more \<open>r\<close> first.\<close>

fun Times :: "nat \<Rightarrow> regex \<Rightarrow> regex" where
  "Times 0 r = Lit []"
| "Times (Suc n) r = Seq r (Times n r)"

fun UpTo :: "nat \<Rightarrow> regex \<Rightarrow> regex" where
  "UpTo 0 r = Lit []"
| "UpTo (Suc n) r = Opt (Seq r (UpTo n r))"

fun seq :: "regex list \<Rightarrow> regex" where
  "seq [] = Lit []"
| "seq [r] = r"
| "seq (r # rs) = Seq r (seq rs)"

fun alts :: "string list \<Rightarrow> regex" where
  "alts [] = Lit []"
| "alts [w] = Lit w"
| "alts (w # ws) = Alt (Lit w) (alts ws)"

text \<open>
  Every pattern with a group in the sources has the shape \<open>before (group) after\<close>, with
  no group inside \<open>before\<close> or \<open>after\<close>.
\<close>

record pattern =
  before :: regex
  group1 :: regex
  after :: regex
  ignorecase :: bool

text \<open>The match starting at the head of \<open>s\<close>, if any: the text of group 1.\<close>

definition match_here :: "pattern \<Rightarrow> string \<Rightarrow> string option" where
  "match_here p s =
     (case concat (map (\<lambda>s1. concat (map (\<lambda>s2. map (\<lambda>s3. take (length s1 - length s2) s1)
                                              (rmatch (ignorecase p) (after p) s2))
                                      (rmatch (ignorecase p) (group1 p) s1)))
                       (rmatch (ignorecase p) (before p) s)) of
        [] \<Rightarrow> None
      | g # _ \<Rightarrow> Some g)"

text \<open>\<open>re.search\<close>: the match at the leftmost position that has one.\<close>

fun re_search :: "pattern \<Rightarrow> string \<Rightarrow> string option" where
  "re_search p [] = match_here p []"
| "re_search p (c # cs) =
     (case match_here p (c # cs) of Some g \<Rightarrow> Some g | None \<Rightarrow> re_search p cs)"

text \<open>The first pattern of a list that matches, with its group: the \<open>for ... break\<close> loops.\<close>

fun first_match :: "pattern list \<Rightarrow> string \<Rightarrow> string option" where
  "first_match [] s = None"
| "first_match (p # ps) s =
     (case re_search p s of Some g \<Rightarrow> Some g | None \<Rightarrow> first_match ps s)"

section \<open>The storage and the mail provider\<close>

text \<open>
  The rows of backend-setup.py.  \<open>merchant\<close>, \<open>amount\<close> and \<open>date\<close> are NOT NULL
  columns; \<open>description\<close>, \<open>category_id\<close> and \<open>email_id\<close> may be NULL.
\<close>

record user =
  u_id :: int
  u_refresh_token :: string

record category =
  c_id :: nat
  c_name :: string
  c_user_id :: int

record expense =
  e_id :: nat
  e_date :: date
  e_amount :: rat
  e_merchant :: string
  e_description :: "string option"
  e_category_id :: "nat option"
  e_user_id :: int
  e_email_id :: "string option"

record database =
  users :: "user list"
  categories :: "category list"
  expenses :: "expense list"

text \<open>A Gmail message payload: its headers, its parts when it is multi-part, its own body.
  \<open>part_data\<close> and \<open>body_data\<close> are \<open>body.get('data', '')\<close>.\<close>

record part =
  mimeType :: string
  part_data :: string

record payload =
  headers :: "(string \<times> string) list"
  parts :: "part list option"
  body_data :: string

text \<open>The result of \<open>ExpenseNLPProcessor.extract_email_info\<close>, read off the spaCy document.\<close>

record nlp_info =
  amounts :: "rat list"
  merchants :: "string list"
  dates :: "string list"
  order_numbers :: "string list"

text \<open>
  What one run gets from its collaborators: the fetched message (or the exception of the
  Gmail client), \<open>base64.urlsafe_b64decode(data).decode('utf-8')\<close>, BeautifulSoup's
  \<open>get_text\<close>, \<open>dateutil.parser.parse(s).date()\<close> (\<open>None\<close> when it raises),
  \<open>datetime.now().date()\<close>, whether a token classification model is loaded and
  whether it came from the model file (\<open>load_or_initialize_model\<close> binds
  \<open>self.tokenizer\<close> only when it fetches the pretrained model), the entities
  (label, word) of the transformers pipeline, the ORG entities spaCy finds in a text,
  the result of \<open>extract_email_info\<close>, the category name of \<open>predict_category\<close>,
  and whether the storage accepts the commit.
\<close>

record env =
  fetched :: "py_error + payload"
  decode :: "string \<Rightarrow> py_error + string"
  soup_text :: "string \<Rightarrow> string"
  parse_date :: "string \<Rightarrow> date option"
  today :: date
  ner_loaded :: bool
  model_from_file :: bool
  ner :: "string \<Rightarrow> py_error + (string \<times> string) list"
  spacy_orgs :: "string \<Rightarrow> string list"
  nlp_results :: "string \<Rightarrow> nlp_info"
  predict_category :: "expense \<Rightarrow> py_error + string"
  commit_ok :: bool

text \<open>
  What a run of the orchestrator comes to.  \<open>process_email_message\<close> returns it as a
  dictionary; \<open>process_email\<close> returns nothing and logs it, \<open>Failed\<close> being the
  exception its handler logs before the rollback.
\<close>

datatype outcome =
    User_not_found
  | Skipped_already_processed
  | Success nat
  | Skipped_no_expense_details
  | Failed py_error

definition already_processed :: "database \<Rightarrow> string \<Rightarrow> bool" where
  "already_processed db message_id =
     list_ex (\<lambda>e. e_email_id e = Some message_id) (expenses db)"

definition next_expense_id :: "database \<Rightarrow> nat" where
  "next_expense_id db = Suc (foldr max (map e_id (expenses db)) 0)"

definition next_category_id :: "database \<Rightarrow> nat" where
  "next_category_id db = Suc (foldr max (map c_id (categories db)) 0)"

text \<open>\<open>next((h['value'] for h in headers if ...), '')\<close>\<close>

definition header_value :: "(string \<Rightarrow> bool) \<Rightarrow> (string \<times> string) list \<Rightarrow> string" where
  "header_value wanted hs = (case filter (\<lambda>h. wanted (fst h)) hs of [] \<Rightarrow> [] | h # _ \<Rightarrow> snd h)"

definition sent_date :: "env \<Rightarrow> string \<Rightarrow> date" where
  "sent_date env date_str =
     (case parse_date env date_str of Some d \<Rightarrow> d | None \<Rightarrow> today env)"

section \<open>A model of \<open>base64.urlsafe_b64decode(data).decode('utf-8')\<close>\<close>

text \<open>
  The decoder of the standard library, for the concrete runs below: a non-ASCII
  character raises \<open>ValueError\<close>; characters outside the alphabet are skipped; padding
  ends the input once the current quad has two characters; an incomplete quad at the end
  raises \<open>binascii.Error\<close>; the bytes must then be well-formed UTF-8.  Decoded text is
  kept as its UTF-8 bytes, which for ASCII text are its characters.
\<close>

definition b64_value :: "char \<Rightarrow> nat option" where
  "b64_value c =
     (if is_upper c then Some (ord c - 65)
      else if is_lower c then Some (ord c - 97 + 26)
      else if is_digit c then Some (ord c - 48 + 52)
      else if c = CHR ''-'' \<or> c = CHR ''+'' then Some 62
      else if c = CHR ''_'' \<or> c = CHR ''/'' then Some 63
      else None)"

definition emit :: "nat \<Rightarrow> py_error + nat list \<Rightarrow> py_error + nat list" where
  "emit b r = (case r of Inl e \<Rightarrow> Inl e | Inr bs \<Rightarrow> Inr (b # bs))"

fun a2b_base64 :: "nat \<Rightarrow> nat \<Rightarrow> nat \<Rightarrow> string \<Rightarrow> py_error + nat list" where
  "a2b_base64 quad_pos leftchar pads [] =
     (if quad_pos \<noteq> 0 then Inl BinasciiError else Inr [])"
| "a2b_base64 quad_pos leftchar pads (c # cs) =
     (if c = CHR ''='' then
        (if quad_pos \<ge> 2 \<and> quad_pos + (pads + 1) \<ge> 4 then Inr []
         else a2b_base64 quad_pos leftchar (if quad_pos \<ge> 2 then pads + 1 else pads) cs)
      else
        (case b64_value c of
           None \<Rightarrow> a2b_base64 quad_pos leftchar pads cs
         | Some v \<Rightarrow>
             if quad_pos = 0 then a2b_base64 1 v 0 cs
             else if quad_pos = 1
               then emit (leftchar * 4 + v div 16) (a2b_base64 2 (v mod 16) 0 cs)
             else if quad_pos = 2
               then emit (leftchar * 16 + v div 4) (a2b_base64 3 (v mod 4) 0 cs)
             else emit (leftchar * 64 + v) (a2b_base64 0 0 0 cs)))"

definition cont :: "nat \<Rightarrow> bool" where
  "cont b = (128 \<le> b \<and> b \<le> 191)"

fun utf8_ok :: "nat list \<Rightarrow> bool" where
  "utf8_ok [] = True"
| "utf8_ok (b # bs) =
     (if b < 128 then utf8_ok bs
      else if 194 \<le> b \<and> b \<le> 223 then
        (case bs of b1 # r \<Rightarrow> cont b1 \<and> utf8_ok r | _ \<Rightarrow> False)
      else if 224 \<le> b \<and> b \<le> 239 then
        (case bs of b1 # b2 # r \<Rightarrow>
           cont b1 \<and> cont b2 \<and> (if b = 224 then 160 \<le> b1 else True)
           \<and> (if b = 237 then b1 \<le> 159 else True) \<and> utf8_ok r
         | _ \<Rightarrow> False)
      else if 240 \<le> b \<and> b \<le> 244 then
        (case bs of b1 # b2 # b3 # r \<Rightarrow>
           cont b1 \<and> cont b2 \<and> cont b3 \<and> (if b = 240 then 144 \<le> b1 else True)
           \<and> (if b = 244 then b1 \<le> 143 else True) \<and> utf8_ok r
         | _ \<Rightarrow> False)
      else False)"

definition b64_utf8 :: "string \<Rightarrow> py_error + string" where
  "b64_utf8 data =
     (if list_ex (\<lambda>c. ord c \<ge> 128) data then Inl ValueError
      else case a2b_base64 0 0 0 data of
             Inl e \<Rightarrow> Inl e
           | Inr bs \<Rightarrow> if utf8_ok bs then Inr (map char_of bs) else Inl UnicodeDecodeError)"

section \<open>gmail-integration.py: the heuristic field extractor\<close>

text \<open>The class \<open>[A-Za-z0-9\s\.]\<close> of the merchant groups.\<close>

definition merchant_chars :: cset where
  "merchant_chars =
     Union [Range CHR ''A'' CHR ''Z'', Range CHR ''a'' CHR ''z'', Range CHR ''0'' CHR ''9'',
            Space, Chr CHR ''.'']"

text \<open>The class \<open>[A-Za-z0-9\-]\<close> of the order number groups.\<close>

definition number_chars :: cset where
  "number_chars =
     Union [Range CHR ''A'' CHR ''Z'', Range CHR ''a'' CHR ''z'', Range CHR ''0'' CHR ''9'',
            Chr CHR ''-'']"

text \<open>\<open>\d+(?:\.\d{2})?\<close>\<close>

definition money :: regex where
  "money = seq [Plus (Atom Digit), Opt (seq [Lit ''.'', Times 2 (Atom Digit)])]"

definition amount_word :: regex where
  "amount_word = alts [''total'', ''amount'', ''charge'', ''payment'']"

text \<open>
  \<open>extract_merchant_from_subject\<close>, lines 218 to 233: the four subject patterns, all
  with \<open>re.IGNORECASE\<close>; the first that matches gives the merchant, stripped.
\<close>

definition subject_patterns :: "pattern list" where
  "subject_patterns =
     [\<lparr>before = seq [alts [''Your'', ''New''], Lit '' '', alts [''order'', ''purchase''],
                      Lit '' '', alts [''from'', ''with''], Lit '' ''],
       group1 = Plus (Atom merchant_chars), after = Lit [], ignorecase = True\<rparr>,
      \<lparr>before = Lit [], group1 = Plus (Atom merchant_chars),
       after = seq [Lit '' '', alts [''order'', ''receipt'', ''invoice'', ''confirmation'']],
       ignorecase = True\<rparr>,
      \<lparr>before = seq [alts [''Receipt'', ''Confirmation''], Lit '' for ''],
       group1 = Plus (Atom merchant_chars), after = Lit [], ignorecase = True\<rparr>,
      \<lparr>before = seq [Lit ''Thanks for '', alts [''ordering'', ''shopping''], Lit '' '',
                      alts [''from'', ''with'', ''at''], Lit '' ''],
       group1 = Plus (Atom merchant_chars), after = Lit [], ignorecase = True\<rparr>]"

definition extract_merchant_from_subject :: "string \<Rightarrow> string option" where
  "extract_merchant_from_subject subject =
     (case first_match subject_patterns subject of
        Some g \<Rightarrow> Some (py_strip g)
      | None \<Rightarrow> None)"

text \<open>
  \<open>extract_expense_details\<close>, lines 148 to 165: the four amount patterns in priority
  order, with \<open>re.IGNORECASE\<close>, then the general pattern without it.
\<close>

definition amount_patterns :: "pattern list" where
  "amount_patterns =
     [\<lparr>before = seq [amount_word, UpTo 3 (seq [Plus (Atom Space), Plus (Atom Word)]),
                      Plus (Atom Space), Lit ''$'', Star (Atom Space)],
       group1 = money, after = Lit [], ignorecase = True\<rparr>,
      \<lparr>before = seq [Lit ''$'', Star (Atom Space)], group1 = money,
       after = seq [Plus (Atom Space), amount_word], ignorecase = True\<rparr>,
      \<lparr>before = seq [alts [''USD'', ''US$''], Star (Atom Space)], group1 = money,
       after = Lit [], ignorecase = True\<rparr>,
      \<lparr>before = Lit [], group1 = seq [Plus (Atom Digit), Lit ''.'', Times 2 (Atom Digit)],
       after = seq [Plus (Atom Space), alts [''USD'', ''US$'', ''dollars'']],
       ignorecase = True\<rparr>]"

definition general_amount_pattern :: pattern where
  "general_amount_pattern =
     \<lparr>before = seq [Lit ''$'', Star (Atom Space)],
      group1 = seq [Plus (Atom Digit), Star (seq [Lit '','', Times 3 (Atom Digit)]),
                    Opt (seq [Lit ''.'', Times 2 (Atom Digit)])],
      after = Lit [], ignorecase = False\<rparr>"

text \<open>\<open>float(amount_match.group(1).replace(',', ''))\<close>\<close>

definition to_amount :: "string \<Rightarrow> py_error + rat field" where
  "to_amount g =
     (case py_float (remove_commas g) of None \<Rightarrow> Inl ValueError | Some a \<Rightarrow> Inr (Val a))"

definition extract_amount :: "string \<Rightarrow> py_error + rat field" where
  "extract_amount text =
     (case first_match amount_patterns text of
        Some g \<Rightarrow> to_amount g
      | None \<Rightarrow>
          (case re_search general_amount_pattern text of
             Some g \<Rightarrow> to_amount g
           | None \<Rightarrow> Inr Missing))"

text \<open>Lines 167 to 183: the merchant from the subject, else from the two text patterns.\<close>

definition merchant_patterns :: "pattern list" where
  "merchant_patterns =
     [\<lparr>before = seq [alts [''from'', ''vendor'', ''merchant'', ''store'', ''retailer''],
                      Lit '':'', Plus (Atom Space)],
       group1 = Plus (Atom merchant_chars), after = Lit [], ignorecase = True\<rparr>,
      \<lparr>before = seq [Lit ''Thank'', Plus (Atom Space), Lit ''you'', Plus (Atom Space),
                      Lit ''for'', Plus (Atom Space),
                      Alt (seq [Lit ''your'', Plus (Atom Space), Lit ''purchase''])
                          (alts [''ordering'', ''shopping'']),
                      Plus (Atom Space), alts [''from'', ''with'', ''at''], Plus (Atom Space)],
       group1 = Plus (Atom merchant_chars), after = Lit [], ignorecase = True\<rparr>]"

definition extract_merchant :: "string \<Rightarrow> string \<Rightarrow> string field" where
  "extract_merchant text subject =
     (case extract_merchant_from_subject subject of
        Some m \<Rightarrow>
          if m \<noteq> [] then Val m
          else (case first_match merchant_patterns text of
                  Some g \<Rightarrow> Val (py_strip g) | None \<Rightarrow> Missing)
      | None \<Rightarrow>
          (case first_match merchant_patterns text of
             Some g \<Rightarrow> Val (py_strip g) | None \<Rightarrow> Missing))"

text \<open>Lines 199 to 210: the description patterns.\<close>

definition description_patterns :: "pattern list" where
  "description_patterns =
     [\<lparr>before = seq [alts [''order'', ''confirmation''], Plus (Atom Space),
                      alts [''number'', ''#''], Lit '':'', Star (Atom Space)],
       group1 = Plus (Atom number_chars), after = Lit [], ignorecase = True\<rparr>,
      \<lparr>before = seq [alts [''invoice'', ''receipt''], Plus (Atom Space),
                      alts [''number'', ''#''], Lit '':'', Star (Atom Space)],
       group1 = Plus (Atom number_chars), after = Lit [], ignorecase = True\<rparr>,
      \<lparr>before = seq [alts [''purchase'', ''bought'', ''ordered''], Lit '':'', Plus (Atom Space)],
       group1 = LazyPlus (Atom Dot), after = Alt (Lit ''.'') Eol, ignorecase = True\<rparr>]"

definition extract_description :: "string \<Rightarrow> string field" where
  "extract_description text =
     (case first_match description_patterns text of
        Some g \<Rightarrow> Val (py_strip g)
      | None \<Rightarrow> Missing)"

text \<open>
  \<open>extract_expense_details(text, subject)\<close>, lines 129 to 216.  \<open>soup\<close> stands for
  BeautifulSoup: the visible text of an HTML document without its script and style
  elements.  Lines 186 to 197 read the sender from \<open>message\<close>, a name that is bound
  neither in the function nor in the module (it is a local variable of
  \<open>process_email_message\<close>), so evaluating the \<open>for\<close> statement raises \<open>NameError\<close>.
\<close>

definition extract_expense_details ::
  "(string \<Rightarrow> string) \<Rightarrow> string \<Rightarrow> string \<Rightarrow> py_error + candidate option" where
  "extract_expense_details soup text0 subject =
     (let text1 = (if py_contains ''<html'' (py_lower text0) then soup text0 else text0);
          text = py_join '' '' (py_split text1)
      in case extract_amount text of
           Inl e \<Rightarrow> Inl e
         | Inr amt \<Rightarrow>
             let mer = extract_merchant text subject
             in if \<not> has_key mer then Inl NameError
                else
                  let results = \<lparr>amount = amt, merchant = mer, date = Missing,
                                  description = extract_description text\<rparr>
                  in if has_key (amount results) \<and> has_key (merchant results)
                     then Inr (Some results) else Inr None)"

section \<open>gmail-integration.py: categorize_expense and process_email_message\<close>

text \<open>The table \<open>merchant_rules\<close>, in the order of the dictionary literal.\<close>

definition merchant_rules :: "(string \<times> string list) list" where
  "merchant_rules =
     [(''grocery'', [''kroger'', ''safeway'', ''trader joe'', ''aldi'', ''whole foods'', ''wegmans'']),
      (''restaurant'', [''doordash'', ''ubereats'', ''grubhub'', ''mcdonalds'', ''chipotle'', ''starbucks'']),
      (''transportation'', [''uber'', ''lyft'', ''amtrak'', ''delta'', ''southwest'', ''united'']),
      (''shopping'', [''amazon'', ''walmart'', ''target'', ''ebay'', ''etsy'', ''best buy'']),
      (''entertainment'', [''netflix'', ''hulu'', ''spotify'', ''disney+'', ''hbo'', ''amc'']),
      (''utilities'', [''comcast'', ''verizon'', ''at&t'', ''pge'', ''water bill'', ''electric''])]"

text \<open>
  \<open>{cat.name.lower(): cat.id for cat in categories}\<close> over the categories of the user:
  a later category of the same lower-case name replaces an earlier one.
\<close>

definition user_categories :: "database \<Rightarrow> int \<Rightarrow> category list" where
  "user_categories db user_id = filter (\<lambda>c. c_user_id c = user_id) (categories db)"

definition category_dict :: "category list \<Rightarrow> string \<Rightarrow> nat option" where
  "category_dict cats = map_of (rev (map (\<lambda>c. (py_lower (c_name c), c_id c)) cats))"

definition rule_hits :: "string list \<Rightarrow> string \<Rightarrow> bool" where
  "rule_hits keywords merchant_lower = list_ex (\<lambda>k. py_contains k merchant_lower) keywords"

text \<open>
  The loop over \<open>merchant_rules.items()\<close>: it returns at the first rule one of whose
  keywords occurs in the merchant and whose category the user has; a rule that hits
  without such a category does not stop the loop.
\<close>

fun merchant_rule_category ::
  "(string \<times> string list) list \<Rightarrow> string \<Rightarrow> (string \<Rightarrow> nat option) \<Rightarrow> nat option" where
  "merchant_rule_category [] merchant_lower dict = None"
| "merchant_rule_category ((cat, keywords) # rules) merchant_lower dict =
     (if rule_hits keywords merchant_lower then
        (case dict (py_lower cat) of
           Some cid \<Rightarrow> Some cid
         | None \<Rightarrow> merchant_rule_category rules merchant_lower dict)
      else merchant_rule_category rules merchant_lower dict)"

text \<open>The rules after the merchant rules, on the lower-case description.\<close>

definition later_rules :: "(string \<Rightarrow> nat option) \<Rightarrow> nat \<Rightarrow> string \<Rightarrow> nat option" where
  "later_rules dict month desc_lower =
     (if (month = 11 \<or> month = 12)
         \<and> list_ex (\<lambda>k. py_contains k desc_lower) [''gift'', ''christmas'', ''holiday'']
         \<and> (dict ''holiday'' \<noteq> None \<or> dict ''christmas'' \<noteq> None)
      then (case dict ''holiday'' of Some cid \<Rightarrow> Some cid | None \<Rightarrow> dict ''christmas'')
      else if list_ex (\<lambda>k. py_contains k desc_lower)
                [''flight'', ''hotel'', ''vacation'', ''travel'', ''booking'']
              \<and> dict ''travel'' \<noteq> None
      then dict ''travel''
      else (case dict ''uncategorized'' of Some cid \<Rightarrow> Some cid | None \<Rightarrow> dict ''other''))"

text \<open>
  \<open>categorize_expense(expense, user_id)\<close>, lines 235 to 282; \<open>month\<close> is
  \<open>datetime.now().month\<close>.  The expense keeps its \<open>category_id\<close> when no rule assigns
  one.  \<open>expense.description.lower()\<close> raises on a description that is \<open>None\<close>.
\<close>

definition categorize_expense ::
  "database \<Rightarrow> nat \<Rightarrow> expense \<Rightarrow> int \<Rightarrow> py_error + expense" where
  "categorize_expense db month expense user_id =
     (let dict = category_dict (user_categories db user_id);
          merchant_lower = py_lower (e_merchant expense)
      in case merchant_rule_category merchant_rules merchant_lower dict of
           Some cid \<Rightarrow> Inr (expense\<lparr>e_category_id := Some cid\<rparr>)
         | None \<Rightarrow>
             (case e_description expense of
                None \<Rightarrow> Inl AttributeError
              | Some d \<Rightarrow>
                  (case later_rules dict month (py_lower d) of
                     Some cid \<Rightarrow> Inr (expense\<lparr>e_category_id := Some cid\<rparr>)
                   | None \<Rightarrow> Inr expense)))"

text \<open>Lines 87 to 103: the body text, inline in \<open>process_email_message\<close>.\<close>

fun select_data :: "part list \<Rightarrow> string option \<Rightarrow> string option" where
  "select_data [] data = data"
| "select_data (p # ps) data =
     (if mimeType p = ''text/plain'' then Some (part_data p)
      else if mimeType p = ''text/html'' then select_data ps (Some (part_data p))
      else select_data ps data)"

definition message_text :: "(string \<Rightarrow> py_error + string) \<Rightarrow> payload \<Rightarrow> py_error + string" where
  "message_text dec p =
     (case parts p of
        Some ps \<Rightarrow>
          (case select_data ps None of
             Some d \<Rightarrow> if d \<noteq> [] then dec d else Inr []
           | None \<Rightarrow> Inr [])
      | None \<Rightarrow> if body_data p \<noteq> [] then dec (body_data p) else Inr [])"

definition add_expense :: "database \<Rightarrow> expense \<Rightarrow> database" where
  "add_expense db e = db\<lparr>expenses := expenses db @ [e]\<rparr>"

text \<open>
  \<open>process_email_message(user_id, message_id)\<close>, lines 56 to 127.  Nothing here
  catches an exception: a run that raises ends in \<open>Failed\<close> with the storage as it was.
\<close>

definition process_email_message :: "env \<Rightarrow> database \<Rightarrow> int \<Rightarrow> string \<Rightarrow> outcome \<times> database" where
  "process_email_message env db user_id message_id =
     (if \<not> list_ex (\<lambda>u. u_id u = user_id) (users db) then (User_not_found, db)
      else if already_processed db message_id then (Skipped_already_processed, db)
      else
        case fetched env of
          Inl err \<Rightarrow> (Failed err, db)
        | Inr p \<Rightarrow>
            let subject = header_value (\<lambda>n. n = ''Subject'') (headers p);
                date_str = header_value (\<lambda>n. n = ''Date'') (headers p);
                d = sent_date env date_str
            in case message_text (decode env) p of
                 Inl err \<Rightarrow> (Failed err, db)
               | Inr text \<Rightarrow>
                   (case extract_expense_details (soup_text env) text subject of
                      Inl err \<Rightarrow> (Failed err, db)
                    | Inr None \<Rightarrow> (Skipped_no_expense_details, db)
                    | Inr (Some results) \<Rightarrow>
                        (case (amount results, merchant results) of
                           (Val a, Val m) \<Rightarrow>
                             let expense = \<lparr>e_id = next_expense_id db, e_date = d, e_amount = a,
                                   e_merchant = m,
                                   e_description = (case description results of
                                       Missing \<Rightarrow> Some [] | PyNone \<Rightarrow> None | Val t \<Rightarrow> Some t),
                                   e_category_id = None, e_user_id = user_id,
                                   e_email_id = Some message_id\<rparr>
                             in (case categorize_expense db (fst (snd (today env))) expense user_id of
                                   Inl err \<Rightarrow> (Failed err, db)
                                 | Inr expense' \<Rightarrow>
                                     if commit_ok env then (Success (e_id expense'), add_expense db expense')
                                     else (Failed IntegrityError, db))
                         | (Missing, _) \<Rightarrow> (Failed KeyError, db)
                         | (_, Missing) \<Rightarrow> (Failed KeyError, db)
                         | _ \<Rightarrow> (Failed IntegrityError, db))))"

section \<open>advanced-ai-backend.py: MLEmailParser\<close>

text \<open>\<open>max\<close> of a list, and the key \<open>Counter(xs).most_common(1)\<close> puts first: the most
  frequent element, the earliest one among equals.  Both are used on non-empty lists.\<close>

definition py_max :: "rat list \<Rightarrow> rat" where
  "py_max xs = (case xs of [] \<Rightarrow> 0 | x # r \<Rightarrow> foldl max x r)"

definition most_common :: "string list \<Rightarrow> string" where
  "most_common xs =
     (case xs of
        [] \<Rightarrow> []
      | x # r \<Rightarrow> foldl (\<lambda>b y. if count_list xs y > count_list xs b then y else b) x r)"

text \<open>Lines 646 to 650 and 719 to 723: the amount among the numbers found.\<close>

definition choose_amount :: "rat list \<Rightarrow> rat field" where
  "choose_amount found =
     (if found = [] then Missing
      else let filtered_amounts = filter (\<lambda>a. 1 \<le> a \<and> a \<le> 10000) found
           in if filtered_amounts \<noteq> [] then Val (py_max filtered_amounts)
              else Val (py_max found))"

text \<open>Lines 663 to 670 and 733 to 740: the date among the date entities.\<close>

definition choose_date :: "env \<Rightarrow> string list \<Rightarrow> date field" where
  "choose_date env found =
     (case found of
        [] \<Rightarrow> Val (today env)
      | s # _ \<Rightarrow> (case parse_date env s of Some d \<Rightarrow> Val d | None \<Rightarrow> Val (today env)))"

text \<open>The class \<open>[\w\s&]\<close>.\<close>

definition ml_merchant_chars :: cset where
  "ml_merchant_chars = Union [Word, Space, Chr CHR ''&'']"

definition ml_subject_patterns :: "pattern list" where
  "ml_subject_patterns =
     [\<lparr>before = seq [alts [''Receipt'', ''Order'', ''Confirmation''], Lit '' from ''],
       group1 = Plus (Atom ml_merchant_chars), after = Lit [], ignorecase = True\<rparr>,
      \<lparr>before = Lit [], group1 = Plus (Atom ml_merchant_chars),
       after = Lit '' Order Confirmation'', ignorecase = True\<rparr>,
      \<lparr>before = Lit ''Your '', group1 = Plus (Atom ml_merchant_chars),
       after = Lit '' order'', ignorecase = True\<rparr>,
      \<lparr>before = Lit ''Thanks for your '', group1 = Plus (Atom ml_merchant_chars),
       after = Lit '' order'', ignorecase = True\<rparr>]"

text \<open>
  \<open>MLEmailParser.extract_merchant_from_subject\<close>, lines 751 to 784; the result is
  \<open>None\<close> for the empty subject.
\<close>

definition ml_extract_merchant_from_subject :: "env \<Rightarrow> string \<Rightarrow> string field" where
  "ml_extract_merchant_from_subject env subject =
     (if subject = [] then PyNone
      else case spacy_orgs env subject of
             org # _ \<Rightarrow> Val org
           | [] \<Rightarrow>
               (case first_match ml_subject_patterns subject of
                  Some g \<Rightarrow> Val (py_strip g)
                | None \<Rightarrow>
                    (case py_split subject of
                       w # _ \<Rightarrow> Val w
                     | [] \<Rightarrow> Val ''Unknown Merchant'')))"

text \<open>\<open>\$?(\d+(?:\.\d{2})?)\<close>, the pattern of both searches on a MONEY or CARDINAL word.\<close>

definition entity_amount_pattern :: pattern where
  "entity_amount_pattern =
     \<lparr>before = Opt (Lit ''$''), group1 = money, after = Lit [], ignorecase = False\<rparr>"

text \<open>The loop over the entities, lines 695 to 711: organizations, dates, amounts.\<close>

fun sort_entities ::
  "(string \<times> string) list \<Rightarrow> string list \<times> string list \<times> rat list" where
  "sort_entities [] = ([], [], [])"
| "sort_entities ((label, word) # es) =
     (case sort_entities es of
        (orgs, ds, ams) \<Rightarrow>
          if endswith label ''ORG'' then (word # orgs, ds, ams)
          else if endswith label ''DATE'' then (orgs, word # ds, ams)
          else if endswith label ''MONEY'' \<or> endswith label ''CARDINAL'' then
            (case re_search entity_amount_pattern word of
               Some g \<Rightarrow>
                 (case py_float g of Some a \<Rightarrow> (orgs, ds, a # ams) | None \<Rightarrow> (orgs, ds, ams))
             | None \<Rightarrow> (orgs, ds, ams))
          else (orgs, ds, ams))"

text \<open>
  \<open>extract_with_transformers\<close>, lines 679 to 749: \<open>None\<close> when the pipeline raises and
  when no amount was found.  With a model from the file, \<open>self.tokenizer\<close> at line 685
  is not bound: the \<open>AttributeError\<close> is caught like any other, and the result is
  \<open>None\<close>.  The key \<open>merchant\<close> is always set, possibly to \<open>None\<close>.
\<close>

definition extract_with_transformers :: "env \<Rightarrow> string \<Rightarrow> string \<Rightarrow> candidate option" where
  "extract_with_transformers env email_text email_subject =
     (case (if model_from_file env then Inl AttributeError else ner env email_text) of
        Inl err \<Rightarrow> None
      | Inr ner_results \<Rightarrow>
          (case sort_entities ner_results of
             (organizations, ds, ams) \<Rightarrow>
               let result = \<lparr>amount = choose_amount ams,
                     merchant = (case organizations of
                                   org # _ \<Rightarrow> Val org
                                 | [] \<Rightarrow> ml_extract_merchant_from_subject env email_subject),
                     date = choose_date env ds,
                     description = Val []\<rparr>
               in if has_key (amount result) \<and> has_key (merchant result)
                  then Some result else None))"

text \<open>The fallback of \<open>extract_expense_details\<close>, lines 635 to 677.\<close>

definition nlp_fallback :: "env \<Rightarrow> string \<Rightarrow> string \<Rightarrow> candidate option" where
  "nlp_fallback env email_text email_subject =
     (let info = nlp_results env email_text;
          result = \<lparr>amount = choose_amount (amounts info),
                merchant = (if merchants info \<noteq> [] then Val (most_common (merchants info))
                            else ml_extract_merchant_from_subject env email_subject),
                date = choose_date env (dates info),
                description = (case order_numbers info of
                                 [] \<Rightarrow> Val []
                               | n # _ \<Rightarrow> Val (''Order #'' @ n))\<rparr>
      in if has_key (amount result) \<and> has_key (merchant result) then Some result else None)"

text \<open>
  \<open>MLEmailParser.extract_expense_details\<close>, lines 627 to 677: the result of the
  transformers when a model is loaded and the result is valid, else the fallback, which
  is returned as it is.
\<close>

definition ml_extract_expense_details :: "env \<Rightarrow> string \<Rightarrow> string \<Rightarrow> candidate option" where
  "ml_extract_expense_details env email_text email_subject =
     (if ner_loaded env
         \<and> validate_extraction (extract_with_transformers env email_text email_subject)
      then extract_with_transformers env email_text email_subject
      else nlp_fallback env email_text email_subject)"

section \<open>task-scheduler.py: extract_email_body, categorize_expense, process_email\<close>

text \<open>
  \<open>extract_email_body(payload)\<close>, lines 161 to 194.  The first loop stops at the first
  \<open>text/plain\<close> part with data; the second, run when the text is still empty, at the
  first \<open>text/html\<close> part with data.  No decoding error is caught here.
\<close>

fun plain_text :: "(string \<Rightarrow> py_error + string) \<Rightarrow> part list \<Rightarrow> py_error + string" where
  "plain_text dec [] = Inr []"
| "plain_text dec (p # ps) =
     (if mimeType p = ''text/plain'' \<and> part_data p \<noteq> [] then dec (part_data p)
      else plain_text dec ps)"

fun html_text ::
  "(string \<Rightarrow> py_error + string) \<Rightarrow> (string \<Rightarrow> string) \<Rightarrow> part list \<Rightarrow> py_error + string" where
  "html_text dec soup [] = Inr []"
| "html_text dec soup (p # ps) =
     (if mimeType p = ''text/html'' \<and> part_data p \<noteq> [] then
        (case dec (part_data p) of Inl e \<Rightarrow> Inl e | Inr html \<Rightarrow> Inr (soup html))
      else html_text dec soup ps)"

definition extract_email_body ::
  "(string \<Rightarrow> py_error + string) \<Rightarrow> (string \<Rightarrow> string) \<Rightarrow> payload \<Rightarrow> py_error + string" where
  "extract_email_body dec soup p =
     (case parts p of
        Some ps \<Rightarrow>
          (case plain_text dec ps of
             Inl e \<Rightarrow> Inl e
           | Inr text \<Rightarrow> if text = [] then html_text dec soup ps else Inr text)
      | None \<Rightarrow> if body_data p \<noteq> [] then dec (body_data p) else Inr [])"

text \<open>
  \<open>categorize_expense(db, expense, user_id)\<close>, lines 196 to 218: the predicted name,
  looked up without regard to case among the categories of the user, and created when
  it is not there.  \<open>ilike\<close> is taken as equality of the lower-case names.
\<close>

definition nlp_categorize ::
  "env \<Rightarrow> database \<Rightarrow> expense \<Rightarrow> int \<Rightarrow> py_error + (expense \<times> database)" where
  "nlp_categorize env db expense user_id =
     (case predict_category env expense of
        Inl err \<Rightarrow> Inl err
      | Inr category_name \<Rightarrow>
          if category_name = [] then Inr (expense, db)
          else
            (case filter (\<lambda>c. py_lower (c_name c) = py_lower category_name \<and> c_user_id c = user_id)
                         (categories db) of
               c # _ \<Rightarrow> Inr (expense\<lparr>e_category_id := Some (c_id c)\<rparr>, db)
             | [] \<Rightarrow>
                 let new_category = \<lparr>c_id = next_category_id db, c_name = category_name,
                                      c_user_id = user_id\<rparr>
                 in Inr (expense\<lparr>e_category_id := Some (c_id new_category)\<rparr>,
                         db\<lparr>categories := categories db @ [new_category]\<rparr>)))"

text \<open>
  \<open>process_email(db, user, service, message_id)\<close>, lines 96 to 159.  Every exception
  after the duplicate check is caught, logged, and the session rolled back: the storage
  is as it was.  An expense whose merchant or date is \<open>None\<close> is refused by the storage
  at the commit, if categorizing it has not raised before: either way the run fails.
\<close>

definition process_email :: "env \<Rightarrow> database \<Rightarrow> user \<Rightarrow> string \<Rightarrow> outcome \<times> database" where
  "process_email env db usr message_id =
     (if already_processed db message_id then (Skipped_already_processed, db)
      else
        case fetched env of
          Inl err \<Rightarrow> (Failed err, db)
        | Inr p \<Rightarrow>
            let subject = header_value (\<lambda>n. py_lower n = ''subject'') (headers p);
                date_str = header_value (\<lambda>n. py_lower n = ''date'') (headers p);
                d = sent_date env date_str
            in case extract_email_body (decode env) (soup_text env) p of
                 Inl err \<Rightarrow> (Failed err, db)
               | Inr email_text \<Rightarrow>
                   (case ml_extract_expense_details env email_text subject of
                      None \<Rightarrow> (Skipped_no_expense_details, db)
                    | Some results \<Rightarrow>
                        if results \<noteq> empty_dict \<and> has_key (amount results)
                           \<and> has_key (merchant results)
                        then
                          (case (amount results, merchant results,
                                 (case date results of Missing \<Rightarrow> Val d | x \<Rightarrow> x)) of
                             (Val a, Val m, Val dt) \<Rightarrow>
                               let expense = \<lparr>e_id = next_expense_id db, e_date = dt,
                                     e_amount = a, e_merchant = m,
                                     e_description = (case description results of
                                         Missing \<Rightarrow> Some [] | PyNone \<Rightarrow> None | Val t \<Rightarrow> Some t),
                                     e_category_id = None, e_user_id = u_id usr,
                                     e_email_id = Some message_id\<rparr>
                               in (case nlp_categorize env db expense (u_id usr) of
                                     Inl err \<Rightarrow> (Failed err, db)
                                   | Inr (expense', db') \<Rightarrow>
                                       if commit_ok env
                                       then (Success (e_id expense'), add_expense db' expense')
                                       else (Failed IntegrityError, db))
                           | _ \<Rightarrow> (Failed IntegrityError, db))
                        else (Skipped_no_expense_details, db)))"

section \<open>Concrete runs\<close>

text \<open>
  A storage with two users, some messages, and the collaborators of the runs that the
  evaluated statements below are about: through the regex extractor of
  gmail-integration.py, through the fallback of \<open>MLEmailParser\<close> (no model loaded,
  the text \<open>Acme Corp charged $999999\<close>), and on a body that cannot be decoded.
\<close>

definition alice :: user where
  "alice = \<lparr>u_id = 1, u_refresh_token = ''token-1''\<rparr>"

definition bob :: user where
  "bob = \<lparr>u_id = 2, u_refresh_token = ''token-2''\<rparr>"

definition db0 :: database where
  "db0 = \<lparr>users = [alice, bob],
          categories = [\<lparr>c_id = 1, c_name = ''Restaurant'', c_user_id = 1\<rparr>,
                        \<lparr>c_id = 2, c_name = ''Transportation'', c_user_id = 1\<rparr>,
                        \<lparr>c_id = 3, c_name = ''Holiday'', c_user_id = 1\<rparr>,
                        \<lparr>c_id = 4, c_name = ''Other'', c_user_id = 2\<rparr>],
          expenses = []\<rparr>"

definition uber_eats_gift :: expense where
  "uber_eats_gift =
     \<lparr>e_id = 1, e_date = (2026, 12, 1), e_amount = 45, e_merchant = ''Uber Eats'',
      e_description = Some ''gift for mom'', e_category_id = None, e_user_id = 1,
      e_email_id = Some ''m0''\<rparr>"

definition sent_header :: string where
  "sent_header = ''Mon, 2 Jan 2023 10:00:00 +0000''"

definition read_sent_header :: "string \<Rightarrow> date option" where
  "read_sent_header s = (if s = sent_header then Some (2023, 1, 2) else None)"

text \<open>The body is \<open>$12,000 reference number $45.00 total\<close> in base64.\<close>

definition receipt :: payload where
  "receipt = \<lparr>headers = [(''Subject'', ''Acme receipt''), (''Date'', sent_header)],
              parts = None,
              body_data = ''JDEyLDAwMCByZWZlcmVuY2UgbnVtYmVyICQ0NS4wMCB0b3RhbA==''\<rparr>"

text \<open>The body is \<open>Acme Corp charged $999999\<close> in base64.\<close>

definition large_charge :: payload where
  "large_charge = \<lparr>headers = [(''Subject'', ''Your receipt''), (''Date'', sent_header)],
              parts = None,
              body_data = ''QWNtZSBDb3JwIGNoYXJnZWQgJDk5OTk5OQ==''\<rparr>"


text \<open>A single-part message whose data is not base64.\<close>

definition malformed :: payload where
  "malformed = \<lparr>headers = [(''Subject'', ''Your receipt''), (''Date'', sent_header)],
              parts = None, body_data = ''A''\<rparr>"

definition no_entities :: "string \<Rightarrow> py_error + (string \<times> string) list" where
  "no_entities s = Inr []"

definition no_orgs :: "string \<Rightarrow> string list" where
  "no_orgs s = []"

definition large_charge_info :: "string \<Rightarrow> nlp_info" where
  "large_charge_info s =
     \<lparr>amounts = [999999], merchants = [''Acme Corp''], dates = [], order_numbers = []\<rparr>"


definition predicts_shopping :: "expense \<Rightarrow> py_error + string" where
  "predicts_shopping e = Inr ''Shopping''"

definition regex_run :: env where
  "regex_run = \<lparr>fetched = Inr receipt, decode = b64_utf8, soup_text = id,
      parse_date = read_sent_header, today = (2026, 11, 4), ner_loaded = False,
      model_from_file = False, ner = no_entities, spacy_orgs = no_orgs, nlp_results = large_charge_info,
      predict_category = predicts_shopping, commit_ok = True\<rparr>"

definition fallback_run :: env where
  "fallback_run = \<lparr>fetched = Inr large_charge, decode = b64_utf8, soup_text = id,
      parse_date = read_sent_header, today = (2026, 11, 4), ner_loaded = False,
      model_from_file = False, ner = no_entities, spacy_orgs = no_orgs, nlp_results = large_charge_info,
      predict_category = predicts_shopping, commit_ok = True\<rparr>"


definition malformed_run :: env where
  "malformed_run = \<lparr>fetched = Inr malformed, decode = b64_utf8, soup_text = id,
      parse_date = read_sent_header, today = (2026, 11, 4), ner_loaded = False,
      model_from_file = False, ner = no_entities, spacy_orgs = no_orgs, nlp_results = large_charge_info,
      predict_category = predicts_shopping, commit_ok = True\<rparr>"

text \<open>The storage after the first run of each kind on \<open>db0\<close>.\<close>

definition after_regex :: database where
  "after_regex = snd (process_email_message regex_run db0 1 ''m1'')"

definition after_fallback :: database where
  "after_fallback = snd (process_email fallback_run db0 alice ''m1'')"


section \<open>Properties of the ConnectionManager\<close>

lemma set_update_subset: "set (AList.update k v al) \<subseteq> insert (k, v) (set al)"
  by (induction al) auto

lemma set_delete_eq: "set (AList.delete k al) = {kv \<in> set al. fst kv \<noteq> k}"
  by (auto simp: AList.delete_eq)

lemma no_empty_list_iff: "no_empty_list ac \<longleftrightarrow> (\<forall>kv \<in> set ac. snd kv \<noteq> [])"
  by (simp add: no_empty_list_def list_all_iff)

lemma connect_no_empty_list:
  assumes "no_empty_list ac"
  shows "no_empty_list (connect ok w u ac)"
proof (cases ok)
  case False
  with assms show ?thesis by (simp add: connect_def)
next
  case True
  show ?thesis
  proof (cases "u \<in> fst ` set ac")
    case present: True
    then obtain conns where c: "map_of ac u = Some conns"
      by (metis domD dom_map_of_conv_image_fst)
    have "connect ok w u ac = AList.update u (conns @ [w]) ac"
      using True present c by (simp add: connect_def)
    moreover have "\<forall>kv \<in> set (AList.update u (conns @ [w]) ac). snd kv \<noteq> []"
      using assms set_update_subset [of u "conns @ [w]" ac]
      by (auto simp: no_empty_list_iff)
    ultimately show ?thesis by (simp add: no_empty_list_iff)
  next
    case absent: False
    have m: "map_of (AList.update u [] ac) u = Some []"
      by (simp add: update_conv')
    have "connect ok w u ac = AList.update u ([] @ [w]) (AList.update u [] ac)"
      using True absent m by (simp add: connect_def)
    also have "\<dots> = AList.update u [w] ac"
      by (simp add: update_last)
    finally have e: "connect ok w u ac = AList.update u [w] ac" .
    have "\<forall>kv \<in> set (AList.update u [w] ac). snd kv \<noteq> []"
      using assms set_update_subset [of u "[w]" ac]
      by (auto simp: no_empty_list_iff)
    with e show ?thesis by (simp add: no_empty_list_iff)
  qed
qed

lemma update_entries:
  "kv \<in> set (AList.update k v al) \<Longrightarrow> fst kv \<noteq> k \<Longrightarrow> kv \<in> set al"
  using set_update_subset [of k v al] by auto

lemma disconnect_no_empty_list:
  assumes "no_empty_list ac"
  shows "no_empty_list (disconnect w u ac)"
proof (cases "map_of ac u")
  case None
  with assms show ?thesis by (simp add: disconnect_def)
next
  case (Some conns)
  show ?thesis
  proof (cases "w \<in> set conns")
    case False
    have "(u, conns) \<in> set ac"
      using Some by (rule map_of_SomeD)
    then have ne: "conns \<noteq> []"
      using assms by (auto simp: no_empty_list_iff)
    then obtain c cs where "conns = c # cs" by (cases conns) auto
    then have "disconnect w u ac = ac"
      using Some False by (simp add: disconnect_def)
    with assms show ?thesis by simp
  next
    case True
    let ?ac = "AList.update u (remove1 w conns) ac"
    have m: "map_of ?ac u = Some (remove1 w conns)"
      by (simp add: update_conv')
    have others: "\<forall>kv \<in> set ?ac. fst kv \<noteq> u \<longrightarrow> snd kv \<noteq> []"
      using assms update_entries [of _ u "remove1 w conns" ac]
      by (auto simp: no_empty_list_iff)
    have mine: "\<forall>kv \<in> set ?ac. kv \<in> set ac \<or> kv = (u, remove1 w conns)"
      using set_update_subset [of u "remove1 w conns" ac] by auto
    show ?thesis
    proof (cases "remove1 w conns")
      case Nil
      then have "disconnect w u ac = AList.delete u ?ac"
        using Some True m by (simp add: disconnect_def)
      moreover have "\<forall>kv \<in> set (AList.delete u ?ac). snd kv \<noteq> []"
        using others by (auto simp: set_delete_eq)
      ultimately show ?thesis by (simp add: no_empty_list_iff)
    next
      case (Cons c cs)
      then have "disconnect w u ac = ?ac"
        using Some True m by (simp add: disconnect_def)
      moreover have "\<forall>kv \<in> set ?ac. snd kv \<noteq> []"
        using mine assms Cons by (auto simp: no_empty_list_iff)
      ultimately show ?thesis by (simp add: no_empty_list_iff)
    qed
  qed
qed

lemma run_manager_no_empty_list:
  "no_empty_list ac \<Longrightarrow> no_empty_list (run_manager ops ac)"
proof (induction ops arbitrary: ac)
  case Nil
  then show ?case by simp
next
  case (Cons x xs)
  have "no_empty_list (apply_manager_op x ac)"
    using Cons.prems by (cases x) (simp_all add: connect_no_empty_list disconnect_no_empty_list)
  then show ?case using Cons.IH by simp
qed

text \<open>
  C10.  Starting from the empty registry of \<open>__init__\<close>, after any sequence of
  \<open>connect\<close> and \<open>disconnect\<close> calls every user id that is a key of
  \<open>active_connections\<close> is bound to a non-empty list of connections.
\<close>

theorem connection_registry_never_holds_empty_list:
  "no_empty_list (run_manager ops init_registry)"
  by (rule run_manager_no_empty_list) (simp add: no_empty_list_def init_registry_def)

theorem connection_registry_never_holds_empty_list_witness:
  "no_empty_list (run_manager [Connect True (7::nat) 1, Connect True 8 1, Disconnect 7 1,
      Disconnect 8 1, Connect True 9 2] init_registry)
   \<and> run_manager [Connect True (7::nat) 1, Connect True 8 1, Disconnect 7 1,
      Disconnect 8 1, Connect True 9 2] init_registry = [(2, [9])]"
  using connection_registry_never_holds_empty_list
    [of "[Connect True (7::nat) 1, Connect True 8 1, Disconnect 7 1, Disconnect 8 1, Connect True 9 2]"]
  by (simp add: init_registry_def connect_def disconnect_def AList.delete_eq)

section \<open>Properties of the extraction validator\<close>

text \<open>
  C3.  The validator accepts a result exactly when the amount is present with a value
  strictly above 0 and at most 50000 and the merchant is present with at least 2
  characters; so it rejects exactly when the amount is absent, \<open>\<le> 0\<close> or \<open>> 50000\<close>, or
  the merchant is absent or shorter than 2 characters.  Absent covers a \<open>None\<close> result, a
  missing key and a key bound to \<open>None\<close>.  The validator is a function of its argument
  only.
\<close>

theorem validate_extraction_accepts_iff:
  "validate_extraction result \<longleftrightarrow>
     (\<exists>r a m. result = Some r \<and> amount r = Val a \<and> 0 < a \<and> a \<le> 50000
        \<and> merchant r = Val m \<and> 2 \<le> length m)"
proof (cases result)
  case None
  then show ?thesis by (simp add: validate_extraction_def)
next
  case (Some r)
  show ?thesis
  proof (cases "amount r")
    case Missing
    with Some show ?thesis by (simp add: validate_extraction_def has_key_def)
  next
    case PyNone
    with Some show ?thesis by (simp add: validate_extraction_def falsy_num_def)
  next
    case (Val a)
    note a = this
    have ne: "r \<noteq> empty_dict" using a by (auto simp: empty_dict_def)
    show ?thesis
    proof (cases "merchant r")
      case Missing
      with Some show ?thesis by (simp add: validate_extraction_def has_key_def)
    next
      case PyNone
      with Some show ?thesis by (simp add: validate_extraction_def falsy_str_def)
    next
      case (Val m)
      with Some a ne show ?thesis
        by (auto simp: validate_extraction_def has_key_def falsy_num_def falsy_str_def
            num_of_def len_of_def)
    qed
  qed
qed

theorem validate_extraction_accepts_iff_witness:
  "validate_extraction (Some \<lparr>amount = Val 45, merchant = Val ''Acme'', date = Missing,
       description = Val ''''\<rparr>)
   \<and> \<not> validate_extraction (Some \<lparr>amount = Val 50001, merchant = Val ''Acme'', date = Missing,
       description = Val ''''\<rparr>)
   \<and> \<not> validate_extraction (Some \<lparr>amount = Val 45, merchant = PyNone, date = Missing,
       description = Val ''''\<rparr>)
   \<and> \<not> validate_extraction (Some \<lparr>amount = Missing, merchant = Val ''Acme'', date = Missing,
       description = Val ''''\<rparr>)"
  using validate_extraction_accepts_iff
    [of "Some \<lparr>amount = Val 45, merchant = Val ''Acme'', date = Missing, description = Val ''''\<rparr>"]
    validate_extraction_accepts_iff
    [of "Some \<lparr>amount = Val 50001, merchant = Val ''Acme'', date = Missing, description = Val ''''\<rparr>"]
    validate_extraction_accepts_iff
    [of "Some \<lparr>amount = Val 45, merchant = PyNone, date = Missing, description = Val ''''\<rparr>"]
    validate_extraction_accepts_iff
    [of "Some \<lparr>amount = Missing, merchant = Val ''Acme'', date = Missing, description = Val ''''\<rparr>"]
  by simp

section \<open>Properties of the heuristic field extractor\<close>

lemma first_match_priority:
  "i < length ps \<Longrightarrow> (\<forall>j<i. re_search (ps ! j) s = None) \<Longrightarrow> re_search (ps ! i) s = Some g
     \<Longrightarrow> first_match ps s = Some g"
proof (induction ps arbitrary: i)
  case Nil
  then show ?case by simp
next
  case (Cons p ps)
  show ?case
  proof (cases i)
    case 0
    with Cons.prems show ?thesis by simp
  next
    case (Suc k)
    have p: "re_search p s = None" using Cons.prems(2) Suc by auto
    have "first_match ps s = Some g"
    proof (rule Cons.IH)
      show "k < length ps" using Cons.prems(1) Suc by simp
      show "\<forall>j<k. re_search (ps ! j) s = None"
        using Cons.prems(2) Suc by auto
      show "re_search (ps ! k) s = Some g" using Cons.prems(3) Suc by simp
    qed
    with p show ?thesis by simp
  qed
qed

lemma first_match_none:
  "(\<forall>p \<in> set ps. re_search p s = None) \<Longrightarrow> first_match ps s = None"
  by (induction ps) auto

lemma total_first_no_match:
  "re_search (amount_patterns ! 0) ''$12,000 reference number $45.00 total'' = None"
  by code_simp

lemma total_first_second_pattern:
  "re_search (amount_patterns ! 1) ''$12,000 reference number $45.00 total'' = Some ''45.00''"
  by code_simp

lemma to_amount_45: "to_amount ''45.00'' = Inr (Val 45)"
  by code_simp

lemma details_reference_first:
  "extract_expense_details id ''$12,000 reference number $45.00 total'' ''Acme receipt''
     = Inr (Some \<lparr>amount = Val 45, merchant = Val ''Acme'', date = Missing,
                   description = Missing\<rparr>)"
  by code_simp

text \<open>
  C6, as the claim states it: a text that contains both \<open>$45.00 total\<close> and
  \<open>$12,000 reference number\<close> for which the extracted amount is 5, not 45.00: the
  first pattern, which has priority, matches \<open>charge $5\<close>.
\<close>

theorem amount_charge_before_total_counterexample:
  "py_contains ''$45.00 total'' ''charge $5 $45.00 total $12,000 reference number''
   \<and> py_contains ''$12,000 reference number''
        ''charge $5 $45.00 total $12,000 reference number''
   \<and> extract_expense_details id ''charge $5 $45.00 total $12,000 reference number''
        ''Acme receipt''
       = Inr (Some \<lparr>amount = Val 5, merchant = Val ''Acme'', date = Missing,
                     description = Missing\<rparr>)"
  by code_simp

text \<open>
  C6, amended.  The amount is that of the leftmost match of the first pattern, in the
  order of \<open>amount_patterns\<close>, that matches the text; the general \<open>$\<close> pattern is
  used only when none of them matches.  So priority, not magnitude, decides; on the
  text \<open>$12,000 reference number $45.00 total\<close> the amount is 45.00.
\<close>

theorem amount_first_matching_pattern_wins:
  "(\<forall>i g. i < length amount_patterns
        \<and> (\<forall>j<i. re_search (amount_patterns ! j) t = None)
        \<and> re_search (amount_patterns ! i) t = Some g
      \<longrightarrow> extract_amount t = to_amount g)
   \<and> ((\<forall>p \<in> set amount_patterns. re_search p t = None)
      \<longrightarrow> extract_amount t =
            (case re_search general_amount_pattern t of
               Some g \<Rightarrow> to_amount g | None \<Rightarrow> Inr Missing))
   \<and> extract_expense_details id ''$12,000 reference number $45.00 total'' ''Acme receipt''
       = Inr (Some \<lparr>amount = Val 45, merchant = Val ''Acme'', date = Missing,
                     description = Missing\<rparr>)"
proof (intro conjI allI impI)
  fix i g
  assume h: "i < length amount_patterns
        \<and> (\<forall>j<i. re_search (amount_patterns ! j) t = None)
        \<and> re_search (amount_patterns ! i) t = Some g"
  then have "first_match amount_patterns t = Some g"
    using first_match_priority [of i amount_patterns t g] by blast
  then show "extract_amount t = to_amount g"
    by (simp add: extract_amount_def)
next
  assume "\<forall>p \<in> set amount_patterns. re_search p t = None"
  then have "first_match amount_patterns t = None"
    by (rule first_match_none)
  then show "extract_amount t =
      (case re_search general_amount_pattern t of
         Some g \<Rightarrow> to_amount g | None \<Rightarrow> Inr Missing)"
    by (simp add: extract_amount_def)
next
  show "extract_expense_details id ''$12,000 reference number $45.00 total'' ''Acme receipt''
       = Inr (Some \<lparr>amount = Val 45, merchant = Val ''Acme'', date = Missing,
                     description = Missing\<rparr>)"
    by (rule details_reference_first)
qed

theorem amount_first_matching_pattern_wins_witness:
  "(1::nat) < length amount_patterns
   \<and> re_search (amount_patterns ! 0) ''$12,000 reference number $45.00 total'' = None
   \<and> re_search (amount_patterns ! 1) ''$12,000 reference number $45.00 total'' = Some ''45.00''
   \<and> extract_amount ''$12,000 reference number $45.00 total'' = Inr (Val 45)"
proof -
  have l: "(1::nat) < length amount_patterns" by (simp add: amount_patterns_def)
  have n: "\<forall>j<1. re_search (amount_patterns ! j) ''$12,000 reference number $45.00 total'' = None"
    using total_first_no_match by simp
  have "extract_amount ''$12,000 reference number $45.00 total'' = to_amount ''45.00''"
    using amount_first_matching_pattern_wins [of "''$12,000 reference number $45.00 total''"]
      l n total_first_second_pattern by blast
  then show ?thesis
    using l total_first_no_match total_first_second_pattern to_amount_45 by simp
qed

text \<open>
  C2.  A message whose subject and body match no merchant pattern: the extractor reaches
  the sender fallback, which reads the unbound name \<open>message\<close>, and raises \<open>NameError\<close>
  instead of returning a candidate.
\<close>

theorem extract_expense_details_raises_name_error:
  "extract_expense_details id ''You paid $45.00'' ''Payment received'' = Inl NameError"
  by code_simp

section \<open>Properties of the rule-based categorizer\<close>

lemma merchant_rule_category_first:
  "i < length rules
   \<Longrightarrow> (\<forall>j<i. \<not> (rule_hits (snd (rules ! j)) m \<and> dict (py_lower (fst (rules ! j))) \<noteq> None))
   \<Longrightarrow> rule_hits (snd (rules ! i)) m
   \<Longrightarrow> dict (py_lower (fst (rules ! i))) = Some cid
   \<Longrightarrow> merchant_rule_category rules m dict = Some cid"
proof (induction rules arbitrary: i)
  case Nil
  then show ?case by simp
next
  case (Cons r rules)
  obtain cat kws where r: "r = (cat, kws)" by (cases r)
  show ?case
  proof (cases i)
    case 0
    with Cons.prems r show ?thesis by simp
  next
    case (Suc k)
    have skip: "\<not> (rule_hits kws m \<and> dict (py_lower cat) \<noteq> None)"
      using Cons.prems(2) Suc r by fastforce
    have rest: "merchant_rule_category rules m dict = Some cid"
    proof (rule Cons.IH)
      show "k < length rules" using Cons.prems(1) Suc by simp
      show "\<forall>j<k. \<not> (rule_hits (snd (rules ! j)) m \<and> dict (py_lower (fst (rules ! j))) \<noteq> None)"
        using Cons.prems(2) Suc by fastforce
      show "rule_hits (snd (rules ! k)) m" using Cons.prems(3) Suc by simp
      show "dict (py_lower (fst (rules ! k))) = Some cid" using Cons.prems(4) Suc by simp
    qed
    show ?thesis
    proof (cases "rule_hits kws m")
      case True
      with skip have "dict (py_lower cat) = None" by simp
      with True rest r show ?thesis by simp
    next
      case False
      with rest r show ?thesis by simp
    qed
  qed
qed

lemma uber_eats_rules:
  "\<not> rule_hits (snd (merchant_rules ! 0)) (py_lower (e_merchant uber_eats_gift))
   \<and> \<not> rule_hits (snd (merchant_rules ! 1)) (py_lower (e_merchant uber_eats_gift))
   \<and> rule_hits (snd (merchant_rules ! 2)) (py_lower (e_merchant uber_eats_gift))
   \<and> category_dict (user_categories db0 1) (py_lower (fst (merchant_rules ! 2))) = Some 2
   \<and> e_description uber_eats_gift = Some ''gift for mom''
   \<and> category_dict (user_categories db0 1) ''holiday'' = Some 3
   \<and> later_rules (category_dict (user_categories db0 1)) 12 (py_lower ''gift for mom'') = Some 3"
  by code_simp

text \<open>
  C7.  The first rule of \<open>merchant_rules\<close>, in table order, that has a keyword in the
  lower-case merchant and whose category the user has gives the category, whatever the
  description and the month are: the seasonal, travel and default rules are not
  consulted.
\<close>

theorem merchant_rule_wins_over_later_rules:
  assumes "i < length merchant_rules"
    and "\<forall>j<i. \<not> (rule_hits (snd (merchant_rules ! j)) (py_lower (e_merchant expense))
            \<and> category_dict (user_categories db user_id)
                 (py_lower (fst (merchant_rules ! j))) \<noteq> None)"
    and "rule_hits (snd (merchant_rules ! i)) (py_lower (e_merchant expense))"
    and "category_dict (user_categories db user_id) (py_lower (fst (merchant_rules ! i)))
           = Some cid"
  shows "categorize_expense db month expense user_id
           = Inr (expense\<lparr>e_category_id := Some cid\<rparr>)"
proof -
  have "merchant_rule_category merchant_rules (py_lower (e_merchant expense))
          (category_dict (user_categories db user_id)) = Some cid"
    using assms by (rule merchant_rule_category_first)
  then show ?thesis by (simp add: categorize_expense_def)
qed

theorem merchant_rule_wins_over_later_rules_witness:
  "rule_hits (snd (merchant_rules ! 2)) (py_lower (e_merchant uber_eats_gift))
   \<and> category_dict (user_categories db0 1) (py_lower (fst (merchant_rules ! 2))) = Some 2
   \<and> e_description uber_eats_gift = Some ''gift for mom''
   \<and> later_rules (category_dict (user_categories db0 1)) 12 (py_lower ''gift for mom'') = Some 3
   \<and> categorize_expense db0 12 uber_eats_gift 1
       = Inr (uber_eats_gift\<lparr>e_category_id := Some 2\<rparr>)"
proof -
  have l: "(2::nat) < length merchant_rules" by (simp add: merchant_rules_def)
  have before: "\<forall>j<2. \<not> (rule_hits (snd (merchant_rules ! j)) (py_lower (e_merchant uber_eats_gift))
            \<and> category_dict (user_categories db0 1)
                 (py_lower (fst (merchant_rules ! j))) \<noteq> None)"
  proof (intro allI impI)
    fix j :: nat
    assume "j < 2"
    then have "j = 0 \<or> j = 1" by auto
    then show "\<not> (rule_hits (snd (merchant_rules ! j)) (py_lower (e_merchant uber_eats_gift))
            \<and> category_dict (user_categories db0 1)
                 (py_lower (fst (merchant_rules ! j))) \<noteq> None)"
      using uber_eats_rules by auto
  qed
  have "categorize_expense db0 12 uber_eats_gift 1
          = Inr (uber_eats_gift\<lparr>e_category_id := Some 2\<rparr>)"
    using merchant_rule_wins_over_later_rules [of 2 uber_eats_gift db0 1 2 12] l before
      uber_eats_rules by blast
  then show ?thesis using uber_eats_rules by simp
qed

section \<open>Properties of the orchestrators\<close>

lemma categorize_expense_keeps:
  "categorize_expense db month e uid = Inr e'
   \<Longrightarrow> e_email_id e' = e_email_id e \<and> e_id e' = e_id e \<and> e_amount e' = e_amount e
       \<and> e_merchant e' = e_merchant e \<and> e_date e' = e_date e"
  by (auto simp: categorize_expense_def Let_def split: option.splits)

lemma nlp_categorize_keeps:
  "nlp_categorize env db e uid = Inr (e', db1)
   \<Longrightarrow> e_email_id e' = e_email_id e \<and> e_id e' = e_id e \<and> e_amount e' = e_amount e
       \<and> e_merchant e' = e_merchant e \<and> e_date e' = e_date e
       \<and> expenses db1 = expenses db \<and> users db1 = users db"
  by (auto simp: nlp_categorize_def Let_def split: sum.splits if_splits list.splits)

text \<open>A successful run of \<open>process_email\<close> has appended one expense, which carries the
  amount and merchant of the candidate, the message identifier and the user.\<close>

lemma process_email_success:
  assumes "process_email env db usr mid = (Success eid, db')"
  shows "\<exists>p tx r a m e. fetched env = Inr p
           \<and> extract_email_body (decode env) (soup_text env) p = Inr tx
           \<and> ml_extract_expense_details env tx
                (header_value (\<lambda>n. py_lower n = ''subject'') (headers p)) = Some r
           \<and> amount r = Val a \<and> merchant r = Val m
           \<and> expenses db' = expenses db @ [e] \<and> users db' = users db
           \<and> e_id e = eid \<and> e_amount e = a \<and> e_merchant e = m
           \<and> e_email_id e = Some mid"
proof -
  from assms have np: "\<not> already_processed db mid"
    by (auto simp: process_email_def)
  from assms np obtain p where p: "fetched env = Inr p"
    by (cases "fetched env") (auto simp: process_email_def)
  let ?subject = "header_value (\<lambda>n. py_lower n = ''subject'') (headers p)"
  from assms np p obtain tx where t: "extract_email_body (decode env) (soup_text env) p = Inr tx"
    by (cases "extract_email_body (decode env) (soup_text env) p")
       (auto simp: process_email_def Let_def)
  from assms np p t obtain r where r: "ml_extract_expense_details env tx ?subject = Some r"
    by (cases "ml_extract_expense_details env tx ?subject")
       (auto simp: process_email_def Let_def)
  from assms np p t r obtain a where a: "amount r = Val a"
    by (cases "amount r")
       (auto simp: process_email_def Let_def has_key_def split: if_splits)
  from assms np p t r a obtain m where m: "merchant r = Val m"
    by (cases "merchant r")
       (auto simp: process_email_def Let_def has_key_def split: if_splits)
  let ?d = "sent_date env (header_value (\<lambda>n. py_lower n = ''date'') (headers p))"
  from assms np p t r a m obtain dt where dt: "(case date r of Missing \<Rightarrow> Val ?d | x \<Rightarrow> x) = Val dt"
    by (cases "case date r of Missing \<Rightarrow> Val ?d | x \<Rightarrow> x")
       (auto simp: process_email_def Let_def has_key_def split: if_splits)
  let ?e = "\<lparr>e_id = next_expense_id db, e_date = dt, e_amount = a, e_merchant = m,
             e_description = (case description r of
                 Missing \<Rightarrow> Some [] | PyNone \<Rightarrow> None | Val t \<Rightarrow> Some t),
             e_category_id = None, e_user_id = u_id usr, e_email_id = Some mid\<rparr>"
  have run: "process_email env db usr mid =
      (case nlp_categorize env db ?e (u_id usr) of
         Inl err \<Rightarrow> (Failed err, db)
       | Inr (expense', db1) \<Rightarrow>
           if commit_ok env then (Success (e_id expense'), add_expense db1 expense')
           else (Failed IntegrityError, db))"
    using assms np p t r a m dt
    by (auto simp: process_email_def Let_def has_key_def split: if_splits)
  from assms run obtain e' db1 where c: "nlp_categorize env db ?e (u_id usr) = Inr (e', db1)"
    by (cases "nlp_categorize env db ?e (u_id usr)") auto
  from assms run c have res: "eid = e_id e'" "db' = add_expense db1 e'"
    by (auto split: if_splits)
  have keep: "e_email_id e' = Some mid \<and> e_id e' = next_expense_id db \<and> e_amount e' = a
       \<and> e_merchant e' = m \<and> expenses db1 = expenses db \<and> users db1 = users db"
    using nlp_categorize_keeps [OF c] by simp
  have "expenses db' = expenses db @ [e'] \<and> users db' = users db"
    using res keep by (simp add: add_expense_def)
  with p t r a m res keep show ?thesis by blast
qed

lemma process_email_message_success:
  assumes "process_email_message env db uid mid = (Success eid, db')"
  shows "\<exists>p tx r e. fetched env = Inr p \<and> message_text (decode env) p = Inr tx
           \<and> extract_expense_details (soup_text env) tx
                (header_value (\<lambda>n. n = ''Subject'') (headers p)) = Inr (Some r)
           \<and> amount r = Val (e_amount e) \<and> merchant r = Val (e_merchant e)
           \<and> expenses db' = expenses db @ [e] \<and> users db' = users db
           \<and> e_id e = eid \<and> e_email_id e = Some mid
           \<and> list_ex (\<lambda>u. u_id u = uid) (users db)"
proof -
  from assms have u: "list_ex (\<lambda>u. u_id u = uid) (users db)"
    by (auto simp: process_email_message_def split: if_splits)
  from assms u have np: "\<not> already_processed db mid"
    by (auto simp: process_email_message_def split: if_splits)
  from assms u np obtain p where p: "fetched env = Inr p"
    by (cases "fetched env") (auto simp: process_email_message_def)
  let ?subject = "header_value (\<lambda>n. n = ''Subject'') (headers p)"
  from assms u np p obtain tx where t: "message_text (decode env) p = Inr tx"
    by (cases "message_text (decode env) p") (auto simp: process_email_message_def Let_def)
  from assms u np p t obtain r where
    r: "extract_expense_details (soup_text env) tx ?subject = Inr (Some r)"
    by (cases "extract_expense_details (soup_text env) tx ?subject")
       (auto simp: process_email_message_def Let_def split: option.splits)
  from assms u np p t r obtain a where a: "amount r = Val a"
    by (cases "amount r"; cases "merchant r") (auto simp: process_email_message_def Let_def)
  from assms u np p t r a obtain m where m: "merchant r = Val m"
    by (cases "merchant r") (auto simp: process_email_message_def Let_def)
  let ?d = "sent_date env (header_value (\<lambda>n. n = ''Date'') (headers p))"
  let ?e = "\<lparr>e_id = next_expense_id db, e_date = ?d, e_amount = a, e_merchant = m,
             e_description = (case description r of
                 Missing \<Rightarrow> Some [] | PyNone \<Rightarrow> None | Val t \<Rightarrow> Some t),
             e_category_id = None, e_user_id = uid, e_email_id = Some mid\<rparr>"
  have run: "process_email_message env db uid mid =
      (case categorize_expense db (fst (snd (today env))) ?e uid of
         Inl err \<Rightarrow> (Failed err, db)
       | Inr expense' \<Rightarrow>
           if commit_ok env then (Success (e_id expense'), add_expense db expense')
           else (Failed IntegrityError, db))"
    using u np p t r a m by (simp add: process_email_message_def Let_def)
  from assms run obtain e' where
    c: "categorize_expense db (fst (snd (today env))) ?e uid = Inr e'"
    by (cases "categorize_expense db (fst (snd (today env))) ?e uid") auto
  from assms run c have res: "eid = e_id e'" "db' = add_expense db e'"
    by (auto split: if_splits)
  have keep: "e_email_id e' = Some mid \<and> e_id e' = next_expense_id db
      \<and> e_amount e' = a \<and> e_merchant e' = m"
    using categorize_expense_keeps [OF c] by simp
  have "expenses db' = expenses db @ [e'] \<and> users db' = users db"
    using res by (simp add: add_expense_def)
  with p t r a m res keep u show ?thesis by blast
qed

lemma appended_is_processed:
  "expenses db' = expenses db @ [e] \<Longrightarrow> e_email_id e = Some mid \<Longrightarrow> already_processed db' mid"
  by (simp add: already_processed_def list_ex_iff)

lemma regex_run_result:
  "process_email_message regex_run db0 1 ''m1'' =
     (Success 1, db0\<lparr>expenses :=
        [\<lparr>e_id = 1, e_date = (2023, 1, 2), e_amount = 45, e_merchant = ''Acme'',
          e_description = Some [], e_category_id = None, e_user_id = 1,
          e_email_id = Some ''m1''\<rparr>]\<rparr>)"
  by code_simp

lemma fallback_run_result:
  "process_email fallback_run db0 alice ''m1'' =
     (Success 1, db0\<lparr>categories := categories db0 @ [\<lparr>c_id = 5, c_name = ''Shopping'', c_user_id = 1\<rparr>],
        expenses :=
        [\<lparr>e_id = 1, e_date = (2026, 11, 4), e_amount = 999999, e_merchant = ''Acme Corp'',
          e_description = Some [], e_category_id = Some 5, e_user_id = 1,
          e_email_id = Some ''m1''\<rparr>]\<rparr>)"
  by code_simp

lemma after_regex_eq:
  "after_regex = db0\<lparr>expenses :=
        [\<lparr>e_id = 1, e_date = (2023, 1, 2), e_amount = 45, e_merchant = ''Acme'',
          e_description = Some [], e_category_id = None, e_user_id = 1,
          e_email_id = Some ''m1''\<rparr>]\<rparr>"
  by (simp add: after_regex_def regex_run_result)

lemma after_fallback_eq:
  "after_fallback = db0\<lparr>categories := categories db0 @ [\<lparr>c_id = 5, c_name = ''Shopping'', c_user_id = 1\<rparr>],
        expenses :=
        [\<lparr>e_id = 1, e_date = (2026, 11, 4), e_amount = 999999, e_merchant = ''Acme Corp'',
          e_description = Some [], e_category_id = Some 5, e_user_id = 1,
          e_email_id = Some ''m1''\<rparr>]\<rparr>"
  by (simp add: after_fallback_def fallback_run_result)

lemma process_email_skips:
  "already_processed db mid \<Longrightarrow> process_email env db usr mid = (Skipped_already_processed, db)"
  by (simp add: process_email_def)

lemma process_email_message_skips:
  "already_processed db mid \<Longrightarrow> list_ex (\<lambda>u. u_id u = uid) (users db)
   \<Longrightarrow> process_email_message env db uid mid = (Skipped_already_processed, db)"
  by (simp add: process_email_message_def)

text \<open>
  C4.  When a call has persisted an expense for a message identifier, a second call for
  the same user and identifier is skipped as already processed and leaves the storage
  as it is, whatever the mail provider and the extractors would return (\<open>env'\<close> is
  arbitrary): the check comes before any fetching or extraction.  This holds for
  \<open>process_email\<close> and for \<open>process_email_message\<close>.
\<close>

theorem second_call_is_skipped:
  "(process_email env db usr mid = (Success eid, db')
      \<longrightarrow> process_email env' db' usr mid = (Skipped_already_processed, db'))
   \<and> (process_email_message env db uid mid = (Success eid, db')
      \<longrightarrow> process_email_message env' db' uid mid = (Skipped_already_processed, db'))"
proof (intro conjI impI)
  assume "process_email env db usr mid = (Success eid, db')"
  then obtain e where "expenses db' = expenses db @ [e]" "e_email_id e = Some mid"
    using process_email_success by blast
  then have "already_processed db' mid" by (rule appended_is_processed)
  then show "process_email env' db' usr mid = (Skipped_already_processed, db')"
    by (rule process_email_skips)
next
  assume "process_email_message env db uid mid = (Success eid, db')"
  then obtain e where e: "expenses db' = expenses db @ [e]" "e_email_id e = Some mid"
    and u: "users db' = users db" "list_ex (\<lambda>u. u_id u = uid) (users db)"
    using process_email_message_success by blast
  from e have "already_processed db' mid" by (rule appended_is_processed)
  moreover from u have "list_ex (\<lambda>u. u_id u = uid) (users db')" by simp
  ultimately show "process_email_message env' db' uid mid = (Skipped_already_processed, db')"
    by (rule process_email_message_skips)
qed

theorem second_call_is_skipped_witness:
  "process_email fallback_run db0 alice ''m1'' = (Success 1, after_fallback)
   \<and> process_email malformed_run after_fallback alice ''m1''
       = (Skipped_already_processed, after_fallback)
   \<and> process_email_message regex_run db0 1 ''m1'' = (Success 1, after_regex)
   \<and> process_email_message malformed_run after_regex 1 ''m1''
       = (Skipped_already_processed, after_regex)"
proof -
  have a: "process_email fallback_run db0 alice ''m1'' = (Success 1, after_fallback)"
    by (simp add: after_fallback_eq fallback_run_result)
  have b: "process_email_message regex_run db0 1 ''m1'' = (Success 1, after_regex)"
    by (simp add: after_regex_eq regex_run_result)
  show ?thesis
    using a b
      second_call_is_skipped [where env = fallback_run and db = db0 and usr = alice
        and mid = "''m1''" and eid = 1 and db' = after_fallback and env' = malformed_run]
      second_call_is_skipped [where env = regex_run and db = db0 and uid = 1
        and mid = "''m1''" and eid = 1 and db' = after_regex and env' = malformed_run]
    by blast
qed

text \<open>
  C9.  The duplicate check looks at the message identifier only.  Once a call for one
  user has persisted an expense for an identifier, a call for another user with the
  same identifier is skipped as already processed and persists nothing: the storage is
  unchanged.  For \<open>process_email_message\<close> the other user must exist, since the user
  lookup comes first.
\<close>

theorem dedup_ignores_the_user:
  "(process_email env db u1 mid = (Success eid, db') \<and> u_id u2 \<noteq> u_id u1
      \<longrightarrow> process_email env' db' u2 mid = (Skipped_already_processed, db'))
   \<and> (process_email_message env db uid1 mid = (Success eid, db') \<and> uid2 \<noteq> uid1
        \<and> list_ex (\<lambda>u. u_id u = uid2) (users db')
      \<longrightarrow> process_email_message env' db' uid2 mid = (Skipped_already_processed, db'))"
proof (intro conjI impI)
  assume "process_email env db u1 mid = (Success eid, db') \<and> u_id u2 \<noteq> u_id u1"
  then obtain e where "expenses db' = expenses db @ [e]" "e_email_id e = Some mid"
    using process_email_success by blast
  then have "already_processed db' mid" by (rule appended_is_processed)
  then show "process_email env' db' u2 mid = (Skipped_already_processed, db')"
    by (rule process_email_skips)
next
  assume h: "process_email_message env db uid1 mid = (Success eid, db') \<and> uid2 \<noteq> uid1
        \<and> list_ex (\<lambda>u. u_id u = uid2) (users db')"
  then obtain e where e: "expenses db' = expenses db @ [e]" "e_email_id e = Some mid"
    using process_email_message_success by blast
  from e have "already_processed db' mid" by (rule appended_is_processed)
  with h show "process_email_message env' db' uid2 mid = (Skipped_already_processed, db')"
    by (simp add: process_email_message_skips)
qed

theorem dedup_ignores_the_user_witness:
  "process_email fallback_run db0 alice ''m1'' = (Success 1, after_fallback)
   \<and> u_id bob \<noteq> u_id alice
   \<and> process_email regex_run after_fallback bob ''m1''
       = (Skipped_already_processed, after_fallback)
   \<and> process_email_message regex_run db0 1 ''m1'' = (Success 1, after_regex)
   \<and> list_ex (\<lambda>u. u_id u = 2) (users after_regex)
   \<and> process_email_message regex_run after_regex 2 ''m1''
       = (Skipped_already_processed, after_regex)"
proof -
  have a: "process_email fallback_run db0 alice ''m1'' = (Success 1, after_fallback)"
    by (simp add: after_fallback_eq fallback_run_result)
  have b: "process_email_message regex_run db0 1 ''m1'' = (Success 1, after_regex)"
    by (simp add: after_regex_eq regex_run_result)
  have c: "u_id bob \<noteq> u_id alice" by (simp add: alice_def bob_def)
  have d: "list_ex (\<lambda>u. u_id u = 2) (users after_regex)"
    by (simp add: after_regex_eq db0_def alice_def bob_def)
  have e: "(2::int) \<noteq> 1" by simp
  show ?thesis
    using a b c d e
      dedup_ignores_the_user [where env = fallback_run and db = db0 and ?u1.0 = alice
        and mid = "''m1''" and eid = 1 and db' = after_fallback and ?u2.0 = bob
        and env' = regex_run]
      dedup_ignores_the_user [where env = regex_run and db = db0 and ?uid1.0 = 1
        and mid = "''m1''" and eid = 1 and db' = after_regex and ?uid2.0 = 2
        and env' = regex_run]
    by blast
qed











text \<open>
  C8.  A message sent on 2 January 2023 whose text has no date entity, processed on
  4 November 2026: the persisted expense is dated with the processing date, not with
  the sent date, although \<open>process_email\<close> has computed the sent date as the default of
  \<open>results.get('date', date)\<close>.  Both extractors always set the key \<open>date\<close>.
\<close>

theorem missing_date_becomes_processing_date:
  "fetched fallback_run = Inr large_charge
   \<and> sent_date fallback_run (header_value (\<lambda>n. py_lower n = ''date'') (headers large_charge))
       = (2023, 1, 2)
   \<and> dates (nlp_results fallback_run ''Acme Corp charged $999999'') = []
   \<and> today fallback_run = (2026, 11, 4)
   \<and> process_email fallback_run db0 alice ''m1'' = (Success 1, after_fallback)
   \<and> map e_date (expenses after_fallback) = [(2026, 11, 4)]"
proof -
  have "fetched fallback_run = Inr large_charge
   \<and> sent_date fallback_run (header_value (\<lambda>n. py_lower n = ''date'') (headers large_charge))
       = (2023, 1, 2)
   \<and> dates (nlp_results fallback_run ''Acme Corp charged $999999'') = []
   \<and> today fallback_run = (2026, 11, 4)"
    by code_simp
  then show ?thesis by (simp add: after_fallback_eq fallback_run_result)
qed

section \<open>Properties of the body extractors\<close>

lemma plain_text_empty:
  "list_all (\<lambda>q. part_data q = []) ps \<Longrightarrow> plain_text dec ps = Inr []"
  by (induction ps) auto

lemma html_text_empty:
  "list_all (\<lambda>q. part_data q = []) ps \<Longrightarrow> html_text dec soup ps = Inr []"
  by (induction ps) auto

lemma select_data_empty:
  "list_all (\<lambda>q. part_data q = []) ps \<Longrightarrow> d = None \<or> d = Some []
   \<Longrightarrow> select_data ps d = None \<or> select_data ps d = Some []"
  by (induction ps arbitrary: d) auto

lemma plain_text_first_undecodable:
  "list_all (\<lambda>r. \<not> (mimeType r = ''text/plain'' \<and> part_data r \<noteq> [])) pre
   \<Longrightarrow> mimeType q = ''text/plain'' \<Longrightarrow> part_data q \<noteq> [] \<Longrightarrow> dec (part_data q) = Inl e
   \<Longrightarrow> plain_text dec (pre @ q # post) = Inl e"
  by (induction pre) auto

lemma malformed_facts:
  "parts malformed = None \<and> body_data malformed = ''A''
   \<and> decode malformed_run ''A'' = Inl BinasciiError
   \<and> fetched malformed_run = Inr malformed
   \<and> \<not> already_processed db0 ''m1''"
  by code_simp

text \<open>
  C5, as the claim states it: a single-part payload whose data \<open>A\<close> is not base64.  The
  extractor of task-scheduler.py and the inline extraction of gmail-integration.py both
  raise \<open>binascii.Error\<close> instead of returning the empty string.
\<close>

theorem undecodable_body_raises_counterexample:
  "b64_utf8 (body_data malformed) = Inl BinasciiError
   \<and> extract_email_body b64_utf8 id malformed = Inl BinasciiError
   \<and> message_text b64_utf8 malformed = Inl BinasciiError"
  by code_simp

text \<open>
  C5, amended.  For a payload whose data is empty (the single body, or every part) both
  extractors return the empty string and do not raise.  When the data cannot be decoded
  (\<open>dec\<close> raises on the single body, or on the first \<open>text/plain\<close> part that has data)
  the extractor raises the decoding error; \<open>process_email\<close> catches it, and the run
  ends as failed with the storage unchanged.
\<close>

theorem body_extractor_on_empty_and_undecodable:
  "((case parts p of None \<Rightarrow> body_data p = [] | Some ps \<Rightarrow> list_all (\<lambda>q. part_data q = []) ps)
      \<longrightarrow> extract_email_body dec soup p = Inr [] \<and> message_text dec p = Inr [])
   \<and> (parts p = None \<and> body_data p \<noteq> [] \<and> dec (body_data p) = Inl e
      \<longrightarrow> extract_email_body dec soup p = Inl e \<and> message_text dec p = Inl e)
   \<and> (parts p = Some (pre @ q # post)
        \<and> list_all (\<lambda>r. \<not> (mimeType r = ''text/plain'' \<and> part_data r \<noteq> [])) pre
        \<and> mimeType q = ''text/plain'' \<and> part_data q \<noteq> [] \<and> dec (part_data q) = Inl e
      \<longrightarrow> extract_email_body dec soup p = Inl e)
   \<and> (\<not> already_processed db mid \<and> fetched env = Inr p
        \<and> extract_email_body (decode env) (soup_text env) p = Inl e
      \<longrightarrow> process_email env db usr mid = (Failed e, db))"
proof (intro conjI impI)
  assume h: "case parts p of None \<Rightarrow> body_data p = []
             | Some ps \<Rightarrow> list_all (\<lambda>q. part_data q = []) ps"
  show "extract_email_body dec soup p = Inr []"
    using h by (auto simp: extract_email_body_def plain_text_empty html_text_empty
        split: option.splits)
  show "message_text dec p = Inr []"
  proof (cases "parts p")
    case None
    with h show ?thesis by (simp add: message_text_def)
  next
    case (Some ps)
    with h have "select_data ps None = None \<or> select_data ps None = Some []"
      by (simp add: select_data_empty)
    with Some show ?thesis by (auto simp: message_text_def)
  qed
next
  assume h: "parts p = None \<and> body_data p \<noteq> [] \<and> dec (body_data p) = Inl e"
  then show "extract_email_body dec soup p = Inl e"
    by (simp add: extract_email_body_def)
  from h show "message_text dec p = Inl e"
    by (simp add: message_text_def)
next
  assume h: "parts p = Some (pre @ q # post)
        \<and> list_all (\<lambda>r. \<not> (mimeType r = ''text/plain'' \<and> part_data r \<noteq> [])) pre
        \<and> mimeType q = ''text/plain'' \<and> part_data q \<noteq> [] \<and> dec (part_data q) = Inl e"
  then have "plain_text dec (pre @ q # post) = Inl e"
    by (simp add: plain_text_first_undecodable)
  with h show "extract_email_body dec soup p = Inl e"
    by (simp add: extract_email_body_def)
next
  assume "\<not> already_processed db mid \<and> fetched env = Inr p
        \<and> extract_email_body (decode env) (soup_text env) p = Inl e"
  then show "process_email env db usr mid = (Failed e, db)"
    by (simp add: process_email_def Let_def)
qed

theorem body_extractor_on_empty_and_undecodable_witness:
  "parts malformed = None \<and> body_data malformed \<noteq> []
   \<and> decode malformed_run (body_data malformed) = Inl BinasciiError
   \<and> extract_email_body (decode malformed_run) (soup_text malformed_run) malformed
       = Inl BinasciiError
   \<and> process_email malformed_run db0 alice ''m1'' = (Failed BinasciiError, db0)
   \<and> extract_email_body (decode malformed_run) (soup_text malformed_run)
        (malformed\<lparr>body_data := []\<rparr>) = Inr []"
proof -
  have a: "parts malformed = None \<and> body_data malformed \<noteq> []
      \<and> decode malformed_run (body_data malformed) = Inl BinasciiError"
    using malformed_facts by simp
  have b: "extract_email_body (decode malformed_run) (soup_text malformed_run) malformed
       = Inl BinasciiError"
    using a body_extractor_on_empty_and_undecodable
      [where p = malformed and dec = "decode malformed_run" and e = BinasciiError
         and soup = "soup_text malformed_run"]
    by blast
  have c: "process_email malformed_run db0 alice ''m1'' = (Failed BinasciiError, db0)"
    using b malformed_facts body_extractor_on_empty_and_undecodable
      [where p = malformed and env = malformed_run and e = BinasciiError and db = db0
         and mid = "''m1''" and dec = "decode malformed_run"
         and soup = "soup_text malformed_run" and usr = alice]
    by blast
  have "case parts (malformed\<lparr>body_data := []\<rparr>) of None \<Rightarrow> body_data (malformed\<lparr>body_data := []\<rparr>) = []
        | Some ps \<Rightarrow> list_all (\<lambda>q. part_data q = []) ps"
    using malformed_facts by simp
  then have d: "extract_email_body (decode malformed_run) (soup_text malformed_run)
        (malformed\<lparr>body_data := []\<rparr>) = Inr []"
    using body_extractor_on_empty_and_undecodable
      [where p = "malformed\<lparr>body_data := []\<rparr>" and dec = "decode malformed_run"
         and soup = "soup_text malformed_run"]
    by blast
  from a b c d show ?thesis by simp
qed

end
